theory Spec2Isabelle
  imports Main "HOL-Library.Word"
begin

section \<open>Type descriptors (package reflect, as the framework reads it)\<close>

text \<open>
  The framework inspects request shapes through \<^verbatim>\<open>reflect.Type\<close>. A descriptor is
  modelled by the observations the code makes of it: \<^verbatim>\<open>Kind()\<close>, \<^verbatim>\<open>Elem()\<close>, the
  struct fields (\<^verbatim>\<open>NumField\<close>, \<^verbatim>\<open>Field(i)\<close>) and whether the type implements the
  marker interface \<^verbatim>\<open>FileUpload\<close>. A struct tag is the list of its key/value pairs;
  \<^verbatim>\<open>Tag.Get\<close> returns the empty string for a missing key.
\<close>

datatype kind =
    KInvalid | KBool
  | KInt | KInt8 | KInt16 | KInt32 | KInt64
  | KUint | KUint8 | KUint16 | KUint32 | KUint64 | KUintptr
  | KFloat32 | KFloat64 | KComplex64 | KComplex128
  | KArray | KChan | KFunc | KInterface | KMap | KPointer | KSlice | KString | KStruct
  | KUnsafePointer

fun kind_String :: "kind \<Rightarrow> string" where
  "kind_String KInvalid = ''invalid''"
| "kind_String KBool = ''bool''"
| "kind_String KInt = ''int''"
| "kind_String KInt8 = ''int8''"
| "kind_String KInt16 = ''int16''"
| "kind_String KInt32 = ''int32''"
| "kind_String KInt64 = ''int64''"
| "kind_String KUint = ''uint''"
| "kind_String KUint8 = ''uint8''"
| "kind_String KUint16 = ''uint16''"
| "kind_String KUint32 = ''uint32''"
| "kind_String KUint64 = ''uint64''"
| "kind_String KUintptr = ''uintptr''"
| "kind_String KFloat32 = ''float32''"
| "kind_String KFloat64 = ''float64''"
| "kind_String KComplex64 = ''complex64''"
| "kind_String KComplex128 = ''complex128''"
| "kind_String KArray = ''array''"
| "kind_String KChan = ''chan''"
| "kind_String KFunc = ''func''"
| "kind_String KInterface = ''interface''"
| "kind_String KMap = ''map''"
| "kind_String KPointer = ''ptr''"
| "kind_String KSlice = ''slice''"
| "kind_String KString = ''string''"
| "kind_String KStruct = ''struct''"
| "kind_String KUnsafePointer = ''unsafe.Pointer''"

datatype rtype =
  RType (Name: string) (Kind: kind) (ElemT: "rtype option") (Fields: "rfield list")
        (implementsFileUpload: bool)
and rfield =
  RField (fName: string) (fPkgPath: string) (fType: rtype) (fTag: "(string \<times> string) list")

text \<open>\<^verbatim>\<open>StructField.IsExported\<close>: the package path of an exported field is empty.\<close>

definition IsExported :: "rfield \<Rightarrow> bool" where
  "IsExported f = (fPkgPath f = [])"

definition Tag_Lookup :: "rfield \<Rightarrow> string \<Rightarrow> string option" where
  "Tag_Lookup f key = map_of (fTag f) key"

definition Tag_Get :: "rfield \<Rightarrow> string \<Rightarrow> string" where
  "Tag_Get f key = (case Tag_Lookup f key of None \<Rightarrow> [] | Some v \<Rightarrow> v)"

section \<open>Values and errors\<close>

text \<open>
  \<^verbatim>\<open>float64\<close> values are opaque: the text-to-float conversions of the standard
  library are parameters (\<open>scanFloat\<close> for \<^verbatim>\<open>fmt.Sscanf(s, "%f", &v)\<close>, \<open>parseFloat\<close>
  for the JSON decoder); \<open>VFloat None\<close> is the zero value. Slices, maps, pointers and
  interfaces are \<open>None\<close> when nil. \<open>VJson\<close> is the generic tree the JSON decoder
  stores in an \<^verbatim>\<open>interface{}\<close> target.
\<close>

typedecl float64

datatype json =
    JNull
  | JBool bool
  | JNumber string
  | JString string
  | JArray "json list"
  | JObject "(string \<times> json) list"

text \<open>
  The header of a multipart file part: its filename, its size and what \<^verbatim>\<open>Open\<close>
  returns (an error, or the content). A \<^verbatim>\<open>FileField\<close> holds the filename, the size, the
  header and the opened content.
\<close>

record FileHeader =
  fhFilename :: string
  fhSize :: int
  Open :: "string + string"

record FileField =
  Filename :: string
  Size :: int
  Header' :: FileHeader
  Content :: string

datatype goval =
    VString string
  | VInt int
  | VUint nat
  | VBool bool
  | VFloat "float64 option"
  | VSlice "goval list option"
  | VMap "(string \<times> goval) list option"
  | VPtr "goval option"
  | VIface "(rtype \<times> goval) option"
  | VJson json
  | VStruct "goval list"
  | VFile "FileField option"
  | VOther

text \<open>
  An error is read through \<^verbatim>\<open>Error()\<close>, except the wrapper of validation failures,
  which the HTTP handler recognises by its type.
\<close>

record ValidationError =
  Field' :: string
  SourceType :: string
  Errors :: "string list"

datatype error =
    Err string
  | ValidationErrorWrapper "ValidationError list"

fun Error :: "error \<Rightarrow> string" where
  "Error (Err m) = m"
| "Error (ValidationErrorWrapper _) = ''validation failed''"

text \<open>A call returns normally, returns an error, or panics.\<close>

datatype 'a res = Ok 'a | Failed error | Panicked string

section \<open>Scanning integers (\<^verbatim>\<open>fmt.Sscanf(value, "%d", &v)\<close>)\<close>

text \<open>
  The converters call \<^verbatim>\<open>fmt.Sscanf\<close> with the single verb \<^verbatim>\<open>%d\<close> and look only at
  whether it failed. Package \<^verbatim>\<open>fmt\<close> skips leading blanks (a newline is an error),
  accepts one sign (signed targets only), requires a decimal digit, reads the longest
  run of digits, checks the range of the 64-bit target and leaves the rest of the
  input unread.

  A text is a list of bytes. The blanks of \<^verbatim>\<open>fmt\<close> are the runes U+0009 to U+000D,
  U+0020, U+0085, U+00A0, U+1680, U+2000 to U+200A, U+2028, U+2029, U+202F, U+205F and
  U+3000; \<open>spaceWidth\<close> is the number of bytes of the UTF-8 encoding of such a rune at
  the head of the text, and 0 when there is none.
\<close>

definition isSpace :: "char \<Rightarrow> bool" where
  "isSpace c = (c \<in> set [CHR '' '', CHR 0x09, CHR 0x0A, CHR 0x0B, CHR 0x0C, CHR 0x0D])"

definition isDigit :: "char \<Rightarrow> bool" where
  "isDigit c = (c \<in> set ''0123456789'')"

definition spaceWidth :: "string \<Rightarrow> nat" where
  "spaceWidth s =
     (case s of
        [] \<Rightarrow> 0
      | c # cs \<Rightarrow>
          if isSpace c then 1
          else if take 2 s \<in> set [[CHR 0xC2, CHR 0x85], [CHR 0xC2, CHR 0xA0]] then 2
          else if take 3 s \<in> set ([[CHR 0xE1, CHR 0x9A, CHR 0x80], [CHR 0xE2, CHR 0x81, CHR 0x9F],
                                    [CHR 0xE3, CHR 0x80, CHR 0x80]]
                                   @ map (\<lambda>b. [CHR 0xE2, CHR 0x80, b])
                                       [CHR 0x80, CHR 0x81, CHR 0x82, CHR 0x83, CHR 0x84, CHR 0x85,
                                        CHR 0x86, CHR 0x87, CHR 0x88, CHR 0x89, CHR 0x8A,
                                        CHR 0xA8, CHR 0xA9, CHR 0xAF])
          then 3
          else 0)"

function SkipSpace :: "string \<Rightarrow> string option" where
  "SkipSpace s =
     (if s = [] then Some []
      else if hd s = CHR 0x0A then None
      else if spaceWidth s = 0 then Some s
      else SkipSpace (drop (spaceWidth s) s))"
  by pat_completeness auto

termination
  by (relation "measure length") auto

declare SkipSpace.simps [simp del]

definition digitVal :: "char \<Rightarrow> int" where
  "digitVal c = int (of_char c) - 48"

definition decimal :: "string \<Rightarrow> int" where
  "decimal ds = foldl (\<lambda>n c. 10 * n + digitVal c) 0 ds"

definition scanNumber :: "string \<Rightarrow> string option" where
  "scanNumber s =
     (case s of
        [] \<Rightarrow> None
      | c # cs \<Rightarrow> if isDigit c then Some (takeWhile isDigit s) else None)"

definition scanInt :: "string \<Rightarrow> int option" where
  "scanInt s =
     (case SkipSpace s of
        None \<Rightarrow> None
      | Some [] \<Rightarrow> None
      | Some (c # cs) \<Rightarrow>
          (let neg = (c = CHR ''-'');
               rest = (if c = CHR ''+'' \<or> c = CHR ''-'' then cs else c # cs)
           in case scanNumber rest of
                None \<Rightarrow> None
              | Some ds \<Rightarrow>
                  (let i = (if neg then - decimal ds else decimal ds)
                   in if - (2 ^ 63) \<le> i \<and> i < 2 ^ 63 then Some i else None)))"

definition scanUint :: "string \<Rightarrow> nat option" where
  "scanUint s =
     (case SkipSpace s of
        None \<Rightarrow> None
      | Some rest \<Rightarrow>
          (case scanNumber rest of
             None \<Rightarrow> None
           | Some ds \<Rightarrow> if decimal ds < 2 ^ 64 then Some (nat (decimal ds)) else None))"

section \<open>The plan compiler\<close>

subsection \<open>\<^verbatim>\<open>createFieldSetter\<close>\<close>

text \<open>
  The setters of \<^verbatim>\<open>reflect.Value\<close> panic when the value is not of the setter's kind;
  \<^verbatim>\<open>SetInt\<close> and \<^verbatim>\<open>SetUint\<close> store the 64-bit argument truncated to the width of the
  field (\<^verbatim>\<open>int\<close> and \<^verbatim>\<open>uint\<close> are 64 bits wide). The first argument is the kind of the
  value written to.
\<close>

definition setPanic :: "string \<Rightarrow> kind \<Rightarrow> 'a res" where
  "setPanic method k =
     Panicked (''reflect: call of reflect.Value.'' @ method @ '' on '' @ kind_String k @ '' Value'')"

definition SetString :: "kind \<Rightarrow> string \<Rightarrow> goval res" where
  "SetString k x = (if k = KString then Ok (VString x) else setPanic ''SetString'' k)"

definition SetInt :: "kind \<Rightarrow> int \<Rightarrow> goval res" where
  "SetInt k x =
     (if k = KInt8 then Ok (VInt (sint (word_of_int x :: 8 word)))
      else if k = KInt16 then Ok (VInt (sint (word_of_int x :: 16 word)))
      else if k = KInt32 then Ok (VInt (sint (word_of_int x :: 32 word)))
      else if k = KInt \<or> k = KInt64 then Ok (VInt (sint (word_of_int x :: 64 word)))
      else setPanic ''SetInt'' k)"

definition SetUint :: "kind \<Rightarrow> nat \<Rightarrow> goval res" where
  "SetUint k x =
     (if k = KUint8 then Ok (VUint (unat (of_nat x :: 8 word)))
      else if k = KUint16 then Ok (VUint (unat (of_nat x :: 16 word)))
      else if k = KUint32 then Ok (VUint (unat (of_nat x :: 32 word)))
      else if k = KUint \<or> k = KUint64 \<or> k = KUintptr then Ok (VUint (unat (of_nat x :: 64 word)))
      else setPanic ''SetUint'' k)"

definition SetBool :: "kind \<Rightarrow> bool \<Rightarrow> goval res" where
  "SetBool k x = (if k = KBool then Ok (VBool x) else setPanic ''SetBool'' k)"

definition SetFloat :: "kind \<Rightarrow> float64 \<Rightarrow> goval res" where
  "SetFloat k x =
     (if k = KFloat32 \<or> k = KFloat64 then Ok (VFloat (Some x)) else setPanic ''SetFloat'' k)"

text \<open>
  A setter receives the kind of the field it writes and the text; it yields the value
  stored in the field, or the error it returns.
\<close>

type_synonym setter = "kind \<Rightarrow> string \<Rightarrow> goval res"

definition createFieldSetter :: "(string \<Rightarrow> float64 option) \<Rightarrow> kind \<Rightarrow> setter" where
  "createFieldSetter scanFloat kind =
     (if kind = KString then (\<lambda>field value. SetString field value)
      else if kind \<in> {KInt, KInt8, KInt16, KInt32, KInt64} then
        (\<lambda>field value.
           case scanInt value of
             None \<Rightarrow> Failed (Err ''invalid integer value'')
           | Some intVal \<Rightarrow> SetInt field intVal)
      else if kind \<in> {KUint, KUint8, KUint16, KUint32, KUint64} then
        (\<lambda>field value.
           case scanUint value of
             None \<Rightarrow> Failed (Err ''invalid unsigned integer value'')
           | Some uintVal \<Rightarrow> SetUint field uintVal)
      else if kind = KBool then
        (\<lambda>field value. SetBool field (value = ''true'' \<or> value = ''1''))
      else if kind \<in> {KFloat32, KFloat64} then
        (\<lambda>field value.
           case scanFloat value of
             None \<Rightarrow> Failed (Err ''invalid float value'')
           | Some floatVal \<Rightarrow> SetFloat field floatVal)
      else (\<lambda>field value. Failed (Err (''unsupported field type: '' @ kind_String kind))))"

text \<open>
  The two integer cases of the switch: their kinds, whether the scan of the case
  rejects a text, and the error the converter of the case then returns.
\<close>

definition signedKinds :: "kind set" where
  "signedKinds = {KInt, KInt8, KInt16, KInt32, KInt64}"

definition unsignedKinds :: "kind set" where
  "unsignedKinds = {KUint, KUint8, KUint16, KUint32, KUint64}"

definition scanRejects :: "kind \<Rightarrow> string \<Rightarrow> bool" where
  "scanRejects k v = (if k \<in> signedKinds then scanInt v = None else scanUint v = None)"

definition conversionReason :: "kind \<Rightarrow> string" where
  "conversionReason k =
     (if k \<in> signedKinds then ''invalid integer value'' else ''invalid unsigned integer value'')"

subsection \<open>The walker: \<^verbatim>\<open>buildRequestParser\<close>\<close>

record fieldParser =
  fieldIndex :: nat
  nestedFieldIndex :: nat
  isNested :: bool
  fieldType :: rtype
  fieldKind :: kind
  sourceType :: string
  sourceName :: string
  setter :: "setter option"
  isSlice :: bool
  isFileField :: bool

record requestParser =
  requestType :: rtype
  fieldParsers :: "fieldParser list"
  hasBodyField :: bool
  bodyFieldIdx :: nat

text \<open>\<^verbatim>\<open>Type.Elem\<close> panics for a type that has no element type.\<close>

definition Elem :: "rtype \<Rightarrow> rtype res" where
  "Elem t =
     (case ElemT t of
        Some e \<Rightarrow> Ok e
      | None \<Rightarrow> Panicked (''reflect: Elem of invalid type '' @ Name t))"

definition jsonTagOrName :: "rfield \<Rightarrow> string" where
  "jsonTagOrName nestedField =
     (if Tag_Get nestedField ''json'' = [] then fName nestedField
      else Tag_Get nestedField ''json'')"

text \<open>
  \<^verbatim>\<open>parseNestedStruct\<close>: the loop over the fields of a \<^verbatim>\<open>Route\<close>, \<^verbatim>\<open>Header\<close> or
  \<^verbatim>\<open>Query\<close> group, from field index \<open>j\<close> on; it yields the parsers it appends.
\<close>

fun parseNestedFields ::
  "(string \<Rightarrow> float64 option) \<Rightarrow> nat \<Rightarrow> string \<Rightarrow> nat \<Rightarrow> rfield list \<Rightarrow> fieldParser list res" where
  "parseNestedFields scanFloat parentIndex srcType j [] = Ok []"
| "parseNestedFields scanFloat parentIndex srcType j (nestedField # rest) =
     (if \<not> IsExported nestedField then parseNestedFields scanFloat parentIndex srcType (Suc j) rest
      else
        let jsonTag = jsonTagOrName nestedField;
            fType' = fType nestedField;
            isSlice' = (Kind fType' = KSlice)
        in case (if isSlice' then (case Elem fType' of Ok e \<Rightarrow> Ok (Kind e)
                                    | Failed x \<Rightarrow> Failed x | Panicked p \<Rightarrow> Panicked p)
                 else Ok (Kind fType')) of
             Failed x \<Rightarrow> Failed x
           | Panicked p \<Rightarrow> Panicked p
           | Ok fKind \<Rightarrow>
               (case parseNestedFields scanFloat parentIndex srcType (Suc j) rest of
                  Failed x \<Rightarrow> Failed x
                | Panicked p \<Rightarrow> Panicked p
                | Ok ps \<Rightarrow>
                    Ok (\<lparr> fieldIndex = parentIndex, nestedFieldIndex = j, isNested = True,
                          fieldType = fType', fieldKind = fKind, sourceType = srcType,
                          sourceName = jsonTag,
                          setter = Some (createFieldSetter scanFloat fKind),
                          isSlice = isSlice', isFileField = False \<rparr> # ps)))"

definition parseNestedStruct ::
  "(string \<Rightarrow> float64 option) \<Rightarrow> rtype \<Rightarrow> nat \<Rightarrow> string \<Rightarrow> fieldParser list res" where
  "parseNestedStruct scanFloat structType parentIndex srcType =
     parseNestedFields scanFloat parentIndex srcType 0 (Fields structType)"

fun parseFormFields :: "nat \<Rightarrow> nat \<Rightarrow> rfield list \<Rightarrow> fieldParser list" where
  "parseFormFields parentIndex j [] = []"
| "parseFormFields parentIndex j (nestedField # rest) =
     (if \<not> IsExported nestedField then parseFormFields parentIndex (Suc j) rest
      else
        \<lparr> fieldIndex = parentIndex, nestedFieldIndex = j, isNested = True,
          fieldType = fType nestedField, fieldKind = Kind (fType nestedField),
          sourceType = ''form'', sourceName = jsonTagOrName nestedField,
          setter = None, isSlice = False,
          isFileField = implementsFileUpload (fType nestedField) \<rparr>
        # parseFormFields parentIndex (Suc j) rest)"

definition parseNestedStructForForm :: "rtype \<Rightarrow> nat \<Rightarrow> fieldParser list" where
  "parseNestedStructForForm structType parentIndex =
     parseFormFields parentIndex 0 (Fields structType)"

text \<open>
  \<^verbatim>\<open>buildRequestParser\<close>: the loop over the top-level fields from index \<open>i\<close> on, with
  the parser built so far. \<^verbatim>\<open>NumField\<close> panics for a type that is not a struct (and
  for the nil descriptor of an interface type).
\<close>

fun buildFields ::
  "(string \<Rightarrow> float64 option) \<Rightarrow> nat \<Rightarrow> rfield list \<Rightarrow> requestParser \<Rightarrow> requestParser res" where
  "buildFields scanFloat i [] parser = Ok parser"
| "buildFields scanFloat i (field # rest) parser =
     (if \<not> IsExported field then buildFields scanFloat (Suc i) rest parser
      else if Kind (fType field) = KStruct then
        (if fName field \<in> {''Route'', ''Header'', ''Query''} then
           (case parseNestedStruct scanFloat (fType field) i
                   (if fName field = ''Route'' then ''route''
                    else if fName field = ''Header'' then ''header'' else ''query'') of
              Failed x \<Rightarrow> Failed x
            | Panicked p \<Rightarrow> Panicked p
            | Ok ps \<Rightarrow>
                buildFields scanFloat (Suc i) rest
                  (parser\<lparr> fieldParsers := fieldParsers parser @ ps \<rparr>))
         else if fName field = ''Form'' then
           buildFields scanFloat (Suc i) rest
             (parser\<lparr> fieldParsers :=
                fieldParsers parser @ parseNestedStructForForm (fType field) i \<rparr>)
         else if fName field = ''Body'' then
           buildFields scanFloat (Suc i) rest (parser\<lparr> hasBodyField := True, bodyFieldIdx := i \<rparr>)
         else buildFields scanFloat (Suc i) rest parser)
      else buildFields scanFloat (Suc i) rest parser)"

definition buildRequestParser :: "(string \<Rightarrow> float64 option) \<Rightarrow> rtype \<Rightarrow> requestParser res" where
  "buildRequestParser scanFloat reqType =
     (if Kind reqType \<noteq> KStruct then
        Panicked (''reflect: NumField of non-struct type '' @ Name reqType)
      else
        buildFields scanFloat 0 (Fields reqType)
          \<lparr> requestType = reqType, fieldParsers = [], hasBodyField = False, bodyFieldIdx = 0 \<rparr>)"

text \<open>
  What the walker compiles for a field of a group: a \<^verbatim>\<open>Form\<close> binding has no setter; a
  binding of another group has the converter of the kind of its field, or of the
  element kind when the field is a slice.
\<close>

definition compiled :: "(string \<Rightarrow> float64 option) \<Rightarrow> fieldParser \<Rightarrow> bool" where
  "compiled sf fp \<longleftrightarrow>
     sourceType fp = ''form''
     \<or> (sourceType fp \<in> {''route'', ''header'', ''query''} \<and> \<not> isFileField fp
        \<and> isSlice fp = (Kind (fieldType fp) = KSlice)
        \<and> (if isSlice fp
            then (\<exists>e. ElemT (fieldType fp) = Some e \<and> setter fp = Some (createFieldSetter sf (Kind e)))
            else setter fp = Some (createFieldSetter sf (Kind (fieldType fp)))))"

section \<open>Requests\<close>

text \<open>
  A request is what the transport hands to the executor: \<^verbatim>\<open>r.Header.Get\<close>,
  \<^verbatim>\<open>r.PathValue\<close>, \<^verbatim>\<open>r.URL.Query()\<close> (all values of a key, in request order), the
  body and the outcome of \<^verbatim>\<open>r.ParseMultipartForm\<close> (an error, or the file headers
  of each part name).

  \<^verbatim>\<open>json.Decoder.Decode\<close> reads the next JSON value from the stream and nothing
  after it. A body stream is therefore described by what the decoder makes of it: its
  first JSON value, or the error the scanner reports for it (\<^verbatim>\<open>EOF\<close> for an empty
  stream), and the text that follows the value, which \<^verbatim>\<open>Decode\<close> leaves unread.
\<close>

record BodyStream =
  firstValue :: "string + json"
  unread :: string

record Request =
  Header :: "string \<Rightarrow> string"
  PathValue :: "string \<Rightarrow> string"
  Query :: "string \<Rightarrow> string list"
  Body :: "BodyStream option"
  MultipartForm :: "string + (string \<Rightarrow> FileHeader list)"

text \<open>\<^verbatim>\<open>url.Values.Get\<close>: the first value of the key, or the empty string.\<close>

definition Query_Get :: "Request \<Rightarrow> string \<Rightarrow> string" where
  "Query_Get r key = (case Query r key of [] \<Rightarrow> [] | v # _ \<Rightarrow> v)"

section \<open>Zero values and the JSON decoder\<close>

definition FileFieldType :: rtype where
  "FileFieldType =
     RType ''framework.FileField'' KStruct None
       [RField ''Filename'' [] (RType ''string'' KString None [] False) [],
        RField ''Size'' [] (RType ''int64'' KInt64 None [] False) [],
        RField ''Header'' []
          (RType ''*multipart.FileHeader'' KPointer
             (Some (RType ''multipart.FileHeader'' KStruct None [] False)) [] False) [],
        RField ''Content'' [] (RType ''io.ReadCloser'' KInterface None [] False) []]
       True"

text \<open>The zero value of a type (\<^verbatim>\<open>var req Req\<close>); \<open>VFile None\<close> is the zero \<^verbatim>\<open>FileField\<close>.\<close>

fun zero_val :: "rtype \<Rightarrow> goval" and zero_fields :: "rfield list \<Rightarrow> goval list" where
  "zero_val (RType n k e fs i) =
     (if RType n k e fs i = FileFieldType then VFile None
      else if k = KBool then VBool False
      else if k \<in> {KInt, KInt8, KInt16, KInt32, KInt64} then VInt 0
      else if k \<in> {KUint, KUint8, KUint16, KUint32, KUint64, KUintptr} then VUint 0
      else if k \<in> {KFloat32, KFloat64} then VFloat None
      else if k = KString then VString []
      else if k = KSlice then VSlice None
      else if k = KMap then VMap None
      else if k = KPointer then VPtr None
      else if k = KInterface then VIface None
      else if k = KStruct then VStruct (zero_fields fs)
      else VOther)"
| "zero_fields [] = []"
| "zero_fields (RField fn fp t tg # fs) = zero_val t # zero_fields fs"

text \<open>
  The decoder of \<^verbatim>\<open>encoding/json\<close> with \<^verbatim>\<open>DisallowUnknownFields\<close>, on a value that
  passed the scanner. It reports the first error it meets. An object key is matched
  against the exported fields of the struct by their JSON names (the \<^verbatim>\<open>json\<close> tag up
  to the first comma, else the field name; a tag \<^verbatim>\<open>-\<close> hides the field), exactly
  first and then without regard to ASCII case; a key that matches no field is the
  error \<^verbatim>\<open>json: unknown field "key"\<close>. Pointers are followed to their target. Byte
  slices, arrays, embedded fields, the \<^verbatim>\<open>,string\<close> option and types with their own
  unmarshalling methods are outside the shapes described here; a type mismatch is
  reported without the field path that the library adds to its message.
\<close>

definition jsonInt :: "string \<Rightarrow> int option" where
  "jsonInt lit =
     (case lit of
        [] \<Rightarrow> None
      | c # cs \<Rightarrow>
          if c = CHR ''-'' then
            (if cs \<noteq> [] \<and> list_all isDigit cs then Some (- decimal cs) else None)
          else if list_all isDigit lit then Some (decimal lit) else None)"

definition kindBits :: "kind \<Rightarrow> nat" where
  "kindBits k =
     (if k \<in> {KInt8, KUint8} then 8
      else if k \<in> {KInt16, KUint16} then 16
      else if k \<in> {KInt32, KUint32} then 32
      else 64)"

definition asciiLower :: "char \<Rightarrow> char" where
  "asciiLower c =
     (if 65 \<le> (of_char c :: nat) \<and> (of_char c :: nat) \<le> 90 then char_of (of_char c + 32 :: nat)
      else c)"

definition jsonFieldName :: "rfield \<Rightarrow> string" where
  "jsonFieldName f =
     (let nm = takeWhile (\<lambda>c. c \<noteq> CHR '','') (Tag_Get f ''json'')
      in if nm = [] then fName f else nm)"

definition jsonVisible :: "rfield \<Rightarrow> bool" where
  "jsonVisible f = (IsExported f \<and> Tag_Get f ''json'' \<noteq> ''-'')"

definition findField :: "rfield list \<Rightarrow> string \<Rightarrow> (nat \<times> rfield) option" where
  "findField fs key =
     (case find (\<lambda>(i, f). jsonVisible f \<and> jsonFieldName f = key) (enumerate 0 fs) of
        Some x \<Rightarrow> Some x
      | None \<Rightarrow>
          find (\<lambda>(i, f). jsonVisible f \<and> map asciiLower (jsonFieldName f) = map asciiLower key)
            (enumerate 0 fs))"

definition typeError :: "string \<Rightarrow> rtype \<Rightarrow> string" where
  "typeError what t = ''json: cannot unmarshal '' @ what @ '' into Go value of type '' @ Name t"

fun deref :: "rtype \<Rightarrow> goval \<Rightarrow> rtype \<times> goval" where
  "deref (RType n k e fs i) cur =
     (if k = KPointer then
        (case e of
           Some t \<Rightarrow> deref t (case cur of VPtr (Some v) \<Rightarrow> v | _ \<Rightarrow> zero_val t)
         | None \<Rightarrow> (RType n k e fs i, cur))
      else (RType n k e fs i, cur))"

fun rewrap :: "rtype \<Rightarrow> goval \<Rightarrow> goval" where
  "rewrap (RType n k e fs i) v =
     (if k = KPointer then (case e of Some t \<Rightarrow> VPtr (Some (rewrap t v)) | None \<Rightarrow> v) else v)"

fun decodeValue :: "(string \<Rightarrow> float64 option) \<Rightarrow> rtype \<Rightarrow> goval \<Rightarrow> json \<Rightarrow> string + goval"
and decodeMembers ::
  "(string \<Rightarrow> float64 option) \<Rightarrow> rfield list \<Rightarrow> goval list \<Rightarrow> (string \<times> json) list
     \<Rightarrow> string + goval list"
and decodeEntries ::
  "(string \<Rightarrow> float64 option) \<Rightarrow> rtype \<Rightarrow> (string \<times> json) list
     \<Rightarrow> string + (string \<times> goval) list"
and decodeElems :: "(string \<Rightarrow> float64 option) \<Rightarrow> rtype \<Rightarrow> json list \<Rightarrow> string + goval list"
where
  "decodeValue pf t cur JNull =
     Inr (if Kind t \<in> {KInterface, KPointer, KMap, KSlice} then zero_val t else cur)"
| "decodeValue pf t cur (JBool b) =
     (let u = fst (deref t cur)
      in if Kind u = KBool then Inr (rewrap t (VBool b))
         else if Kind u = KInterface then Inr (rewrap t (VJson (JBool b)))
         else Inl (typeError ''bool'' u))"
| "decodeValue pf t cur (JNumber lit) =
     (let u = fst (deref t cur)
      in if Kind u \<in> {KInt, KInt8, KInt16, KInt32, KInt64} then
           (case jsonInt lit of
              None \<Rightarrow> Inl (typeError (''number '' @ lit) u)
            | Some n \<Rightarrow>
                if - (2 ^ (kindBits (Kind u) - 1)) \<le> n \<and> n < 2 ^ (kindBits (Kind u) - 1)
                then Inr (rewrap t (VInt n))
                else Inl (typeError (''number '' @ lit) u))
         else if Kind u \<in> {KUint, KUint8, KUint16, KUint32, KUint64, KUintptr} then
           (case jsonInt lit of
              None \<Rightarrow> Inl (typeError (''number '' @ lit) u)
            | Some n \<Rightarrow>
                if 0 \<le> n \<and> n < 2 ^ kindBits (Kind u) \<and> hd lit \<noteq> CHR ''-''
                then Inr (rewrap t (VUint (nat n)))
                else Inl (typeError (''number '' @ lit) u))
         else if Kind u \<in> {KFloat32, KFloat64} then
           (case pf lit of
              None \<Rightarrow> Inl (typeError (''number '' @ lit) u)
            | Some x \<Rightarrow> Inr (rewrap t (VFloat (Some x))))
         else if Kind u = KInterface then Inr (rewrap t (VJson (JNumber lit)))
         else Inl (typeError ''number'' u))"
| "decodeValue pf t cur (JString s) =
     (let u = fst (deref t cur)
      in if Kind u = KString then Inr (rewrap t (VString s))
         else if Kind u = KInterface then Inr (rewrap t (VJson (JString s)))
         else Inl (typeError ''string'' u))"
| "decodeValue pf t cur (JArray js) =
     (let u = fst (deref t cur)
      in if Kind u = KSlice then
           (case ElemT u of
              None \<Rightarrow> Inl (typeError ''array'' u)
            | Some e \<Rightarrow>
                (case decodeElems pf e js of
                   Inl m \<Rightarrow> Inl m
                 | Inr vs \<Rightarrow> Inr (rewrap t (VSlice (Some vs)))))
         else if Kind u = KInterface then Inr (rewrap t (VJson (JArray js)))
         else Inl (typeError ''array'' u))"
| "decodeValue pf t cur (JObject kvs) =
     (let u = fst (deref t cur); c = snd (deref t cur)
      in if Kind u = KStruct then
           (case decodeMembers pf (Fields u)
                   (case c of
                      VStruct vs \<Rightarrow> if length vs = length (Fields u) then vs
                                    else zero_fields (Fields u)
                    | _ \<Rightarrow> zero_fields (Fields u))
                   kvs of
              Inl m \<Rightarrow> Inl m
            | Inr vs \<Rightarrow> Inr (rewrap t (VStruct vs)))
         else if Kind u = KMap then
           (case ElemT u of
              None \<Rightarrow> Inl (typeError ''object'' u)
            | Some e \<Rightarrow>
                (case decodeEntries pf e kvs of
                   Inl m \<Rightarrow> Inl m
                 | Inr es \<Rightarrow> Inr (rewrap t (VMap (Some es)))))
         else if Kind u = KInterface then Inr (rewrap t (VJson (JObject kvs)))
         else Inl (typeError ''object'' u))"
| "decodeMembers pf fs vs [] = Inr vs"
| "decodeMembers pf fs vs ((key, j) # kvs) =
     (case findField fs key of
        None \<Rightarrow> Inl (''json: unknown field '' @ [CHR 0x22] @ key @ [CHR 0x22])
      | Some (i, f) \<Rightarrow>
          (case decodeValue pf (fType f) (vs ! i) j of
             Inl m \<Rightarrow> Inl m
           | Inr v \<Rightarrow> decodeMembers pf fs (vs[i := v]) kvs))"
| "decodeEntries pf e [] = Inr []"
| "decodeEntries pf e ((key, j) # kvs) =
     (case decodeValue pf e (zero_val e) j of
        Inl m \<Rightarrow> Inl m
      | Inr v \<Rightarrow>
          (case decodeEntries pf e kvs of
             Inl m \<Rightarrow> Inl m
           | Inr es \<Rightarrow> Inr ((key, v) # es)))"
| "decodeElems pf e [] = Inr []"
| "decodeElems pf e (j # js) =
     (case decodeValue pf e (zero_val e) j of
        Inl m \<Rightarrow> Inl m
      | Inr v \<Rightarrow>
          (case decodeElems pf e js of
             Inl m \<Rightarrow> Inl m
           | Inr vs \<Rightarrow> Inr (v # vs)))"

section \<open>The request parse executor\<close>

text \<open>\<^verbatim>\<open>reflect.Value.Field\<close> panics on a value that is no struct and on a bad index.\<close>

definition getField :: "goval \<Rightarrow> nat \<Rightarrow> goval res" where
  "getField v i =
     (case v of
        VStruct vs \<Rightarrow>
          if i < length vs then Ok (vs ! i)
          else Panicked ''reflect: Field index out of range''
      | _ \<Rightarrow> Panicked ''reflect: call of reflect.Value.Field on non-struct Value'')"

definition setField :: "goval \<Rightarrow> nat \<Rightarrow> goval \<Rightarrow> goval" where
  "setField v i x = (case v of VStruct vs \<Rightarrow> VStruct (vs[i := x]) | _ \<Rightarrow> v)"

text \<open>The field a parser addresses, and the request value with that field replaced.\<close>

definition fieldOf :: "goval \<Rightarrow> fieldParser \<Rightarrow> goval res" where
  "fieldOf reqValue fp =
     (if isNested fp then
        (case getField reqValue (fieldIndex fp) of
           Ok parentField \<Rightarrow> getField parentField (nestedFieldIndex fp)
         | Failed e \<Rightarrow> Failed e
         | Panicked p \<Rightarrow> Panicked p)
      else getField reqValue (fieldIndex fp))"

definition storeField :: "goval \<Rightarrow> fieldParser \<Rightarrow> goval \<Rightarrow> goval" where
  "storeField reqValue fp x =
     (if isNested fp then
        (case getField reqValue (fieldIndex fp) of
           Ok parentField \<Rightarrow>
             setField reqValue (fieldIndex fp) (setField parentField (nestedFieldIndex fp) x)
         | _ \<Rightarrow> reqValue)
      else setField reqValue (fieldIndex fp) x)"

text \<open>Decimal text of a number, as \<^verbatim>\<open>%d\<close> prints it.\<close>

function showNat :: "nat \<Rightarrow> string" where
  "showNat n =
     (if n < 10 then [char_of (48 + n)]
      else showNat (n div 10) @ [char_of (48 + n mod 10)])"
  by pat_completeness auto
termination
  by (relation "measure id") auto

definition quoted :: "string \<Rightarrow> string" where
  "quoted name = [CHR 0x27] @ name @ [CHR 0x27]"

text \<open>
  \<^verbatim>\<open>parseFileField\<close>: the value stored in the field (the field itself, untouched,
  when the part is missing), or the error. \<^verbatim>\<open>Value.Set\<close> panics when the field is
  not of type \<^verbatim>\<open>FileField\<close>.
\<close>

definition parseFileField :: "Request \<Rightarrow> rtype \<Rightarrow> goval \<Rightarrow> string \<Rightarrow> goval res" where
  "parseFileField r fType' fieldValue formName =
     (case MultipartForm r of
        Inl err \<Rightarrow> Failed (Err (''failed to parse multipart form: '' @ err))
      | Inr files \<Rightarrow>
          (case files formName of
             [] \<Rightarrow> Ok fieldValue
           | header # _ \<Rightarrow>
               (case Open header of
                  Inl err \<Rightarrow> Failed (Err (''failed to get form file: '' @ err))
                | Inr file \<Rightarrow>
                    if fType' = FileFieldType then
                      Ok (VFile (Some \<lparr> Filename = fhFilename header, Size = fhSize header,
                                         Header' = header, Content = file \<rparr>))
                    else
                      Panicked (''reflect.Set: value of type framework.FileField is not ''
                                @ ''assignable to type '' @ Name fType'))))"

text \<open>
  \<^verbatim>\<open>setSliceField\<close>: the loop over the values from index \<open>i\<close> on yields the elements
  of the new slice. \<^verbatim>\<open>reflect.MakeSlice\<close> panics for a type that is not a slice type.
\<close>

fun setElems :: "setter \<Rightarrow> kind \<Rightarrow> nat \<Rightarrow> string list \<Rightarrow> goval list res" where
  "setElems set' ek i [] = Ok []"
| "setElems set' ek i (val # rest) =
     (case set' ek val of
        Failed err \<Rightarrow>
          Failed (Err (''failed to parse element '' @ showNat i @ '': '' @ Error err))
      | Panicked p \<Rightarrow> Panicked p
      | Ok v \<Rightarrow>
          (case setElems set' ek (Suc i) rest of
             Ok vs \<Rightarrow> Ok (v # vs)
           | Failed e \<Rightarrow> Failed e
           | Panicked p \<Rightarrow> Panicked p))"

definition setSliceField :: "rtype \<Rightarrow> string list \<Rightarrow> setter option \<Rightarrow> goval res" where
  "setSliceField sliceType values set' =
     (if Kind sliceType \<noteq> KSlice then Panicked ''reflect.MakeSlice of non-slice type''
      else
        case Elem sliceType of
          Failed e \<Rightarrow> Failed e
        | Panicked p \<Rightarrow> Panicked p
        | Ok e \<Rightarrow>
            (case set' of
               None \<Rightarrow>
                 (if values = [] then Ok (VSlice (Some []))
                  else Panicked ''invalid memory address or nil pointer dereference'')
             | Some s \<Rightarrow>
                 (case setElems s (Kind e) 0 values of
                    Ok vs \<Rightarrow> Ok (VSlice (Some vs))
                  | Failed e \<Rightarrow> Failed e
                  | Panicked p \<Rightarrow> Panicked p)))"

text \<open>
  \<^verbatim>\<open>parseBody\<close>, for the body field \<open>field\<close> of the request shape: the decoded value
  to store, or the error. The field is settable when it is exported.
\<close>

definition parseBody :: "(string \<Rightarrow> float64 option) \<Rightarrow> Request \<Rightarrow> rfield \<Rightarrow> goval res" where
  "parseBody parseFloat r field =
     (case Body r of
        None \<Rightarrow> Failed (Err ''request body is empty'')
      | Some stream \<Rightarrow>
          if \<not> IsExported field then Failed (Err ''body field is not settable'')
          else
            (case firstValue stream of
               Inl err \<Rightarrow> Failed (Err (''invalid JSON: '' @ err))
             | Inr j \<Rightarrow>
                 (case decodeValue parseFloat (fType field) (zero_val (fType field)) j of
                    Inl err \<Rightarrow> Failed (Err (''invalid JSON: '' @ err))
                  | Inr v \<Rightarrow> Ok v)))"

text \<open>One round of the loop of \<^verbatim>\<open>parseWithPlan\<close>: the request value after the binding.\<close>

definition parseField :: "Request \<Rightarrow> goval \<Rightarrow> fieldParser \<Rightarrow> goval res" where
  "parseField r reqValue fp =
     (case fieldOf reqValue fp of
        Failed e \<Rightarrow> Failed e
      | Panicked p \<Rightarrow> Panicked p
      | Ok fieldValue \<Rightarrow>
          if sourceType fp = ''form'' \<and> isFileField fp then
            (case parseFileField r (fieldType fp) fieldValue (sourceName fp) of
               Failed err \<Rightarrow>
                 Failed (Err (''form '' @ quoted (sourceName fp) @ '': '' @ Error err))
             | Panicked p \<Rightarrow> Panicked p
             | Ok x \<Rightarrow> Ok (storeField reqValue fp x))
          else if isSlice fp \<and> sourceType fp = ''query'' then
            (let values = Query r (sourceName fp)
             in if length values > 0 then
                  (case setSliceField (fieldType fp) values (setter fp) of
                     Failed err \<Rightarrow>
                       Failed (Err (sourceType fp @ '' '' @ quoted (sourceName fp) @ '': ''
                                    @ Error err))
                   | Panicked p \<Rightarrow> Panicked p
                   | Ok x \<Rightarrow> Ok (storeField reqValue fp x))
                else Ok reqValue)
          else
            (let value =
                   (if sourceType fp = ''header'' then Header r (sourceName fp)
                    else if sourceType fp = ''route'' then PathValue r (sourceName fp)
                    else if sourceType fp = ''query'' then Query_Get r (sourceName fp)
                    else []);
                 found = (sourceType fp \<in> {''header'', ''route'', ''query''} \<and> value \<noteq> [])
             in if found \<and> value \<noteq> [] then
                  (case setter fp of
                     None \<Rightarrow> Panicked ''invalid memory address or nil pointer dereference''
                   | Some set' \<Rightarrow>
                       (case set' (Kind (fieldType fp)) value of
                          Failed err \<Rightarrow>
                            Failed (Err (sourceType fp @ '' '' @ quoted (sourceName fp) @ '': ''
                                         @ Error err))
                        | Panicked p \<Rightarrow> Panicked p
                        | Ok x \<Rightarrow> Ok (storeField reqValue fp x)))
                else Ok reqValue))"

fun parseFields :: "Request \<Rightarrow> goval \<Rightarrow> fieldParser list \<Rightarrow> goval res" where
  "parseFields r reqValue [] = Ok reqValue"
| "parseFields r reqValue (fp # fps) =
     (case parseField r reqValue fp of
        Ok v \<Rightarrow> parseFields r v fps
      | Failed e \<Rightarrow> Failed e
      | Panicked p \<Rightarrow> Panicked p)"

subsection \<open>The validation collaborator and \<^verbatim>\<open>formatValidationError\<close>\<close>

text \<open>
  \<^verbatim>\<open>validator.Struct\<close> is a parameter: it yields nil (\<open>None\<close>), the list of violations
  or another error. A violation is read through \<^verbatim>\<open>Tag()\<close>, \<^verbatim>\<open>StructNamespace()\<close> and
  \<^verbatim>\<open>Field()\<close>.
\<close>

record FieldError =
  Tag :: string
  StructNamespace :: string
  FieldName :: string

datatype validator_error =
    ValidationErrors "FieldError list"
  | InvalidValidationError string

type_synonym validator = "rtype \<Rightarrow> goval \<Rightarrow> validator_error option"

fun splitLoop :: "string \<Rightarrow> string list \<Rightarrow> string \<Rightarrow> string list" where
  "splitLoop [] parts current = (if current \<noteq> [] then parts @ [current] else parts)"
| "splitLoop (c # cs) parts current =
     (if c = CHR ''.'' then
        (if current \<noteq> [] then splitLoop cs (parts @ [current]) [] else splitLoop cs parts current)
      else splitLoop cs parts (current @ [c]))"

definition splitFieldPath :: "string \<Rightarrow> string list" where
  "splitFieldPath namespace = splitLoop namespace [] []"

definition FieldAt :: "rtype \<Rightarrow> nat \<Rightarrow> rfield res" where
  "FieldAt t i =
     (if Kind t = KStruct \<and> i < length (Fields t) then Ok (Fields t ! i)
      else Panicked ''reflect: Field index out of bounds'')"

text \<open>The table from struct paths to (semantic name, source category).\<close>

fun fieldTagMap ::
  "rtype \<Rightarrow> fieldParser list \<Rightarrow> (string \<rightharpoonup> string \<times> string) \<Rightarrow> (string \<rightharpoonup> string \<times> string) res"
where
  "fieldTagMap reqType [] m = Ok m"
| "fieldTagMap reqType (fp # fps) m =
     (case FieldAt reqType (fieldIndex fp) of
        Failed e \<Rightarrow> Failed e
      | Panicked p \<Rightarrow> Panicked p
      | Ok parent \<Rightarrow>
          if isNested fp then
            (case FieldAt (fType parent) (nestedFieldIndex fp) of
               Failed e \<Rightarrow> Failed e
             | Panicked p \<Rightarrow> Panicked p
             | Ok nested \<Rightarrow>
                 fieldTagMap reqType fps
                   (m(fName parent @ ''.'' @ fName nested \<mapsto> (sourceName fp, sourceType fp))))
          else fieldTagMap reqType fps m)"

text \<open>
  The errors grouped by (field, source), each key keeping the messages in the order
  of the violations. Go ranges over a map here, so the order of the records in the
  result is not fixed by the program; the keys are listed by first appearance.
\<close>

fun addMessage ::
  "((string \<times> string) \<times> string list) list \<Rightarrow> string \<times> string \<Rightarrow> string
     \<Rightarrow> ((string \<times> string) \<times> string list) list" where
  "addMessage [] key msg = [(key, [msg])]"
| "addMessage ((k, msgs) # rest) key msg =
     (if k = key then (k, msgs @ [msg]) # rest else (k, msgs) # addMessage rest key msg)"

definition classify ::
  "requestParser \<Rightarrow> string option \<Rightarrow> (string \<rightharpoonup> string \<times> string) \<Rightarrow> FieldError
     \<Rightarrow> string \<times> string" where
  "classify parser bodyFieldName m e =
     (let parts = splitFieldPath (StructNamespace e)
      in if length parts \<ge> 3 then
           (let parentFieldName = parts ! 1;
                nestedFieldName = parts ! 2;
                structPath = parentFieldName @ ''.'' @ nestedFieldName
            in if bodyFieldName = Some parentFieldName then (FieldName e, ''body'')
               else (case m structPath of
                       Some tagInfo \<Rightarrow> tagInfo
                     | None \<Rightarrow> (FieldName e, [])))
         else (FieldName e, []))"

definition formatValidationError ::
  "validator_error \<Rightarrow> requestParser \<Rightarrow> ValidationError list option res" where
  "formatValidationError err parser =
     (case err of
        InvalidValidationError _ \<Rightarrow> Ok None
      | ValidationErrors validationErrs \<Rightarrow>
          (case fieldTagMap (requestType parser) (fieldParsers parser) Map.empty of
             Failed e \<Rightarrow> Failed e
           | Panicked p \<Rightarrow> Panicked p
           | Ok m \<Rightarrow>
               (case (if hasBodyField parser
                      then (case FieldAt (requestType parser) (bodyFieldIdx parser) of
                              Ok f \<Rightarrow> Ok (Some (fName f))
                            | Failed e \<Rightarrow> Failed e
                            | Panicked p \<Rightarrow> Panicked p)
                      else Ok None) of
                  Failed e \<Rightarrow> Failed e
                | Panicked p \<Rightarrow> Panicked p
                | Ok bodyFieldName \<Rightarrow>
                    Ok (Some
                      (map (\<lambda>(key, errors).
                              \<lparr> Field' = fst key, SourceType = snd key, Errors = errors \<rparr>)
                         (foldl (\<lambda>acc e.
                                   addMessage acc
                                     (classify parser bodyFieldName
                                        (case bodyFieldName of
                                           None \<Rightarrow> m
                                         | Some b \<Rightarrow> m(b \<mapsto> (b, ''body'')))
                                        e)
                                     (''failed validation: '' @ Tag e))
                            [] validationErrs))))))"

subsection \<open>\<^verbatim>\<open>parseWithPlan\<close>\<close>

text \<open>
  What a request makes happen beyond its response is kept in a log: the runs of the
  validation collaborator and of the handler, and what middleware records.
\<close>

datatype event = ValidatorRun | HandlerRun | Enter string | Exit string

definition validator_error_Error :: "validator_error \<Rightarrow> string" where
  "validator_error_Error err =
     (case err of InvalidValidationError m \<Rightarrow> m | ValidationErrors _ \<Rightarrow> ''validation errors'')"

text \<open>
  The last step of \<^verbatim>\<open>parseWithPlan\<close>, on the request value as the bindings and the
  body left it: the call of the validation collaborator and the wrapping of what it
  reports.
\<close>

definition validateRequest ::
  "validator \<Rightarrow> requestParser \<Rightarrow> goval \<Rightarrow> goval res \<times> event list" where
  "validateRequest validate parser reqValue =
     (case validate (requestType parser) reqValue of
        None \<Rightarrow> (Ok reqValue, [ValidatorRun])
      | Some err \<Rightarrow>
          (case formatValidationError err parser of
             Failed e \<Rightarrow> (Failed e, [ValidatorRun])
           | Panicked p \<Rightarrow> (Panicked p, [ValidatorRun])
           | Ok (Some validationErrors) \<Rightarrow>
               (Failed (ValidationErrorWrapper validationErrors), [ValidatorRun])
           | Ok None \<Rightarrow>
               (Failed (Err (validator_error_Error err)), [ValidatorRun])))"

definition parseWithPlan ::
  "validator \<Rightarrow> (string \<Rightarrow> float64 option) \<Rightarrow> Request \<Rightarrow> goval \<Rightarrow> requestParser
     \<Rightarrow> goval res \<times> event list" where
  "parseWithPlan validate parseFloat r reqValue parser =
     (case parseFields r reqValue (fieldParsers parser) of
        Failed e \<Rightarrow> (Failed e, [])
      | Panicked p \<Rightarrow> (Panicked p, [])
      | Ok v1 \<Rightarrow>
          (case (if hasBodyField parser then
                   (case getField v1 (bodyFieldIdx parser) of
                      Failed e \<Rightarrow> Failed e
                    | Panicked p \<Rightarrow> Panicked p
                    | Ok bodyField \<Rightarrow>
                        (case FieldAt (requestType parser) (bodyFieldIdx parser) of
                           Failed e \<Rightarrow> Failed e
                         | Panicked p \<Rightarrow> Panicked p
                         | Ok field \<Rightarrow>
                             (case parseBody parseFloat r field of
                                Failed err \<Rightarrow> Failed (Err (''body: '' @ Error err))
                              | Panicked p \<Rightarrow> Panicked p
                              | Ok x \<Rightarrow> Ok (setField v1 (bodyFieldIdx parser) x))))
                 else Ok v1) of
             Failed e \<Rightarrow> (Failed e, [])
           | Panicked p \<Rightarrow> (Panicked p, [])
           | Ok v2 \<Rightarrow> validateRequest validate parser v2))"

section \<open>Responses and handlers\<close>

text \<open>
  The response writer records the headers set, the status code of the first
  \<^verbatim>\<open>WriteHeader\<close> and what was written. \<^verbatim>\<open>json.NewEncoder(w).Encode(v)\<close> writes the
  JSON text of \<open>v\<close>; the record keeps \<open>v\<close> with its static type.
\<close>

record ErrorResponse =
  er_Error :: string
  er_Details :: "(string \<times> string) list option"

record ValidationErrorResponse =
  ver_Error :: string
  ver_Fields :: "ValidationError list"

datatype chunk =
    Encoded rtype goval
  | EncodedError ErrorResponse
  | EncodedValidation ValidationErrorResponse
  | Bytes string

record ResponseWriter =
  headers :: "(string \<times> string) list"
  statusCode :: "int option"
  written :: "chunk list"

definition Header_Set :: "string \<Rightarrow> string \<Rightarrow> ResponseWriter \<Rightarrow> ResponseWriter" where
  "Header_Set key v w = w\<lparr> headers := (key, v) # filter (\<lambda>(k, _). k \<noteq> key) (headers w) \<rparr>"

definition WriteHeader :: "int \<Rightarrow> ResponseWriter \<Rightarrow> ResponseWriter" where
  "WriteHeader code w = (if statusCode w = None then w\<lparr> statusCode := Some code \<rparr> else w)"

definition Write :: "chunk \<Rightarrow> ResponseWriter \<Rightarrow> ResponseWriter" where
  "Write x w = (WriteHeader 200 w)\<lparr> written := written w @ [x] \<rparr>"

definition StatusOK :: int where "StatusOK = 200"
definition StatusBadRequest :: int where "StatusBadRequest = 400"
definition StatusInternalServerError :: int where "StatusInternalServerError = 500"

definition writeError ::
  "ResponseWriter \<Rightarrow> int \<Rightarrow> string \<Rightarrow> (string \<times> string) list option \<Rightarrow> ResponseWriter" where
  "writeError w code message details =
     Write (EncodedError \<lparr> er_Error = message, er_Details = details \<rparr>)
       (WriteHeader code (Header_Set ''Content-Type'' ''application/json'' w))"

definition writeValidationError ::
  "ResponseWriter \<Rightarrow> int \<Rightarrow> ValidationError list \<Rightarrow> ResponseWriter" where
  "writeValidationError w code validationErrors =
     Write (EncodedValidation \<lparr> ver_Error = ''validation failed'', ver_Fields = validationErrors \<rparr>)
       (WriteHeader code (Header_Set ''Content-Type'' ''application/json'' w))"

subsection \<open>\<^verbatim>\<open>writeResponse\<close>\<close>

text \<open>
  \<^verbatim>\<open>StatusResponse[Resp]\<close> is the struct with the fields \<^verbatim>\<open>Code int\<close> and
  \<^verbatim>\<open>Body Resp\<close>. A handler's result has the static type \<open>Resp\<close>; \<^verbatim>\<open>any(response)\<close> is
  the value with its dynamic type: \<open>Resp\<close> itself unless \<open>Resp\<close> is an interface type,
  whose values carry their own type (or are nil). A type assertion to a concrete
  type compares the dynamic type with it; the assertion to the interface
  \<^verbatim>\<open>Responder\<close> asks whether the dynamic type has the method \<^verbatim>\<open>WriteResponse\<close>, which
  the table \<open>responders\<close> of the program gives.
\<close>

definition intType :: rtype where
  "intType = RType ''int'' KInt None [] False"

definition StatusResponse :: "rtype \<Rightarrow> rtype" where
  "StatusResponse Resp =
     RType (''framework.StatusResponse['' @ Name Resp @ '']'') KStruct None
       [RField ''Code'' [] intType [], RField ''Body'' [] Resp []] False"

definition StatusResponse_Code :: "goval \<Rightarrow> int" where
  "StatusResponse_Code v = (case v of VStruct (VInt code # _) \<Rightarrow> code | _ \<Rightarrow> 0)"

definition StatusResponse_Body :: "rtype \<Rightarrow> goval \<Rightarrow> goval" where
  "StatusResponse_Body Resp v = (case v of VStruct [_, b] \<Rightarrow> b | _ \<Rightarrow> zero_val Resp)"

definition any :: "rtype \<Rightarrow> goval \<Rightarrow> (rtype \<times> goval) option" where
  "any Resp response =
     (if Kind Resp = KInterface then (case response of VIface x \<Rightarrow> x | _ \<Rightarrow> None)
      else Some (Resp, response))"

type_synonym responders = "rtype \<Rightarrow> (goval \<Rightarrow> ResponseWriter \<Rightarrow> ResponseWriter) option"

definition writeDefault :: "rtype \<Rightarrow> ResponseWriter \<Rightarrow> goval \<Rightarrow> ResponseWriter" where
  "writeDefault Resp w response =
     Write (Encoded Resp response)
       (WriteHeader StatusOK (Header_Set ''Content-Type'' ''application/json'' w))"

definition writeResponse :: "responders \<Rightarrow> rtype \<Rightarrow> ResponseWriter \<Rightarrow> goval \<Rightarrow> ResponseWriter" where
  "writeResponse methods Resp w response =
     (case any Resp response of
        None \<Rightarrow> writeDefault Resp w response
      | Some (dyn, v) \<Rightarrow>
          (case methods dyn of
             Some WriteResponse \<Rightarrow> WriteResponse v w
           | None \<Rightarrow>
               if dyn = StatusResponse Resp then
                 Write (Encoded Resp (StatusResponse_Body Resp v))
                   (WriteHeader (StatusResponse_Code v)
                      (Header_Set ''Content-Type'' ''application/json'' w))
               else writeDefault Resp w response))"

subsection \<open>\<^verbatim>\<open>createTypeSafeHandler\<close>\<close>

record World =
  writer :: ResponseWriter
  log :: "event list"
  panicked :: "string option"

type_synonym handler = "Request \<Rightarrow> World \<Rightarrow> World"
type_synonym Middleware = "handler \<Rightarrow> handler"

text \<open>
  The library functions and the method table that the framework is run with, and the
  growth policy of \<^verbatim>\<open>append\<close>.
\<close>

record Env =
  scanFloat :: "string \<Rightarrow> float64 option"
  parseFloat :: "string \<Rightarrow> float64 option"
  responderOf :: responders
  grow :: "nat \<Rightarrow> nat \<Rightarrow> nat"

definition createTypeSafeHandler ::
  "Env \<Rightarrow> validator \<Rightarrow> (goval \<Rightarrow> string + goval) \<Rightarrow> requestParser \<Rightarrow> rtype \<Rightarrow> handler" where
  "createTypeSafeHandler env validate handler' parser Resp =
     (\<lambda>r world.
        case parseWithPlan validate (parseFloat env) r (zero_val (requestType parser)) parser of
          (Failed (ValidationErrorWrapper validationErrors), evs) \<Rightarrow>
            world\<lparr> log := log world @ evs,
                   writer := writeValidationError (writer world) StatusBadRequest validationErrors \<rparr>
        | (Failed (Err msg), evs) \<Rightarrow>
            world\<lparr> log := log world @ evs,
                   writer := writeError (writer world) StatusBadRequest msg None \<rparr>
        | (Panicked p, evs) \<Rightarrow> world\<lparr> log := log world @ evs, panicked := Some p \<rparr>
        | (Ok req, evs) \<Rightarrow>
            (case handler' req of
               Inl err \<Rightarrow>
                 world\<lparr> log := log world @ evs @ [HandlerRun],
                        writer := writeError (writer world) StatusInternalServerError err None \<rparr>
             | Inr response \<Rightarrow>
                 world\<lparr> log := log world @ evs @ [HandlerRun],
                        writer := writeResponse (responderOf env) Resp (writer world) response \<rparr>))"

section \<open>The endpoint registry and route groups\<close>

subsection \<open>Slices of middleware\<close>

text \<open>
  The middleware lists are Go slices: a slice is a view (array, length, capacity) of a
  backing array on the heap, and \<^verbatim>\<open>append\<close> writes into that array when the capacity
  suffices, and into a new, larger array otherwise. The heap maps an array to the
  cells written so far. The nil slice and the empty slice literal have capacity 0.
\<close>

record slice =
  sarr :: nat
  slen :: nat
  scap :: nat

record Heap =
  arrays :: "nat \<Rightarrow> Middleware list"
  nextp :: nat

definition nil_slice :: slice where
  "nil_slice = \<lparr> sarr = 0, slen = 0, scap = 0 \<rparr>"

definition elems :: "Heap \<Rightarrow> slice \<Rightarrow> Middleware list" where
  "elems h s = take (slen s) (arrays h (sarr s))"

definition go_append :: "Env \<Rightarrow> Heap \<Rightarrow> slice \<Rightarrow> Middleware list \<Rightarrow> Heap \<times> slice" where
  "go_append env h s xs =
     (let n = slen s + length xs
      in if n \<le> scap s then
           (h\<lparr> arrays := (arrays h)
                  (sarr s := take (slen s) (arrays h (sarr s)) @ xs @ drop n (arrays h (sarr s))) \<rparr>,
            s\<lparr> slen := n \<rparr>)
         else
           (h\<lparr> arrays := (arrays h)(nextp h := elems h s @ xs), nextp := Suc (nextp h) \<rparr>,
            \<lparr> sarr = nextp h, slen = n, scap = max n (grow env (scap s) n) \<rparr>))"

subsection \<open>Groups\<close>

record Group =
  prefix :: string
  middlewares :: slice

datatype Router = FrameworkRouter | GroupRouter Group

fun getPrefix :: "Router \<Rightarrow> string" where
  "getPrefix FrameworkRouter = []"
| "getPrefix (GroupRouter g) = prefix g"

fun getMiddlewares :: "Router \<Rightarrow> slice" where
  "getMiddlewares FrameworkRouter = nil_slice"
| "getMiddlewares (GroupRouter g) = middlewares g"

definition Framework_Group :: "string \<Rightarrow> Group" where
  "Framework_Group prefix' = \<lparr> prefix = prefix', middlewares = nil_slice \<rparr>"

definition Group_Use :: "Env \<Rightarrow> Heap \<Rightarrow> Group \<Rightarrow> Middleware list \<Rightarrow> Heap \<times> Group" where
  "Group_Use env h g middleware =
     (case go_append env h (middlewares g) middleware of
        (h', s) \<Rightarrow> (h', g\<lparr> middlewares := s \<rparr>))"

definition Group_Group :: "Env \<Rightarrow> Heap \<Rightarrow> Group \<Rightarrow> string \<Rightarrow> Heap \<times> Group" where
  "Group_Group env h g prefix' =
     (case go_append env h nil_slice (elems h (middlewares g)) of
        (h', s) \<Rightarrow> (h', \<lparr> prefix = prefix g @ prefix', middlewares = s \<rparr>))"

subsection \<open>Endpoints\<close>

text \<open>
  \<open>handlerPrepFn\<close> takes the validator of the framework, the one part of it that the
  prepared handler uses.
\<close>

record EndpointSpec =
  Method :: string
  RelativePath :: string
  FullPath :: string
  Summary :: string
  Description :: string
  Tags :: "string list"
  RequestType :: "rtype option"
  ResponseType :: "rtype option"
  Middlewares :: slice
  AllMiddlewares :: slice
  handlerPrepFn :: "validator \<Rightarrow> handler"

record Framework =
  validator :: validator
  endpoints :: "EndpointSpec list"
  mux :: "(string \<times> handler) list"

definition New :: "validator \<Rightarrow> Framework" where
  "New validate = \<lparr> validator = validate, endpoints = [], mux = [] \<rparr>"

definition SetSummary :: "EndpointSpec \<Rightarrow> string \<Rightarrow> EndpointSpec" where
  "SetSummary b summary = b\<lparr> Summary := summary \<rparr>"

definition SetDescription :: "EndpointSpec \<Rightarrow> string \<Rightarrow> EndpointSpec" where
  "SetDescription b description = b\<lparr> Description := description \<rparr>"

definition SetTags :: "EndpointSpec \<Rightarrow> string list \<Rightarrow> EndpointSpec" where
  "SetTags b tags = b\<lparr> Tags := tags \<rparr>"

definition Use :: "Env \<Rightarrow> Heap \<Rightarrow> EndpointSpec \<Rightarrow> Middleware list \<Rightarrow> Heap \<times> EndpointSpec" where
  "Use env h b middleware =
     (case go_append env h (Middlewares b) middleware of
        (h', s) \<Rightarrow> (h', b\<lparr> Middlewares := s \<rparr>))"

text \<open>
  \<^verbatim>\<open>reflect.TypeOf\<close> of the zero value of a type parameter: nil for an interface type,
  and \<^verbatim>\<open>buildRequestParser\<close> of the nil descriptor panics.
\<close>

definition TypeOf :: "rtype \<Rightarrow> rtype option" where
  "TypeOf T = (if Kind T = KInterface then None else Some T)"

definition CreateEndpoint ::
  "Env \<Rightarrow> string \<Rightarrow> string \<Rightarrow> (goval \<Rightarrow> string + goval) \<Rightarrow> rtype \<Rightarrow> rtype \<Rightarrow> EndpointSpec res" where
  "CreateEndpoint env method path handler' TReq TResp =
     (case TypeOf TReq of
        None \<Rightarrow> Panicked ''invalid memory address or nil pointer dereference''
      | Some reqType \<Rightarrow>
          (case buildRequestParser (scanFloat env) reqType of
             Failed e \<Rightarrow> Failed e
           | Panicked p \<Rightarrow> Panicked p
           | Ok parser \<Rightarrow>
               Ok \<lparr> Method = method, RelativePath = path, FullPath = [], Summary = [],
                    Description = [], Tags = [], RequestType = Some reqType,
                    ResponseType = TypeOf TResp,
                    Middlewares = nil_slice, AllMiddlewares = nil_slice,
                    handlerPrepFn =
                      (\<lambda>validate. createTypeSafeHandler env validate handler' parser TResp) \<rparr>))"

text \<open>
  The loop of \<^verbatim>\<open>RegisterEndpoint\<close> that wraps the handler, counting \<open>i\<close> down: called
  with the length of the list, it applies the cells \<open>i - 1, \<dots>, 0\<close> in turn.
\<close>

fun wrapFrom :: "Middleware list \<Rightarrow> nat \<Rightarrow> handler \<Rightarrow> handler" where
  "wrapFrom ms 0 finalHandler = finalHandler"
| "wrapFrom ms (Suc i) finalHandler = wrapFrom ms i ((ms ! i) finalHandler)"

text \<open>
  \<^verbatim>\<open>RegisterEndpoint\<close> yields the heap, the framework and the endpoint record as it
  leaves them. The multiplexer is the list of the patterns handled, in the order of
  registration; its own checks of a pattern are the transport's.
\<close>

definition RegisterEndpoint ::
  "Env \<Rightarrow> Heap \<Rightarrow> Framework \<Rightarrow> Router \<Rightarrow> EndpointSpec \<Rightarrow> Heap \<times> Framework \<times> EndpointSpec" where
  "RegisterEndpoint env h f router e =
     (case go_append env h (getMiddlewares router) (elems h (Middlewares e)) of
        (h', allMiddlewares) \<Rightarrow>
          (let route = e\<lparr> AllMiddlewares := allMiddlewares,
                          FullPath := getPrefix router @ RelativePath e \<rparr>;
               finalHandler =
                 wrapFrom (arrays h' (sarr allMiddlewares)) (slen allMiddlewares)
                   (handlerPrepFn route (validator f));
               pattern = Method route @ '' '' @ FullPath route
           in (h',
               f\<lparr> endpoints := endpoints f @ [route], mux := mux f @ [(pattern, finalHandler)] \<rparr>,
               route)))"

section \<open>Package handler: the registration helpers\<close>

text \<open>
  The callback \<open>optFn\<close> receives the endpoint behind the interface
  \<^verbatim>\<open>EndpointOptions\<close>; what it can do to it is a list of calls of the builder's
  methods.
\<close>

datatype option_call =
    CallSetSummary string
  | CallSetDescription string
  | CallSetTags "string list"
  | CallUse "Middleware list"

fun applyOption :: "Env \<Rightarrow> Heap \<times> EndpointSpec \<Rightarrow> option_call \<Rightarrow> Heap \<times> EndpointSpec" where
  "applyOption env (h, b) (CallSetSummary s) = (h, SetSummary b s)"
| "applyOption env (h, b) (CallSetDescription d) = (h, SetDescription b d)"
| "applyOption env (h, b) (CallSetTags ts) = (h, SetTags b ts)"
| "applyOption env (h, b) (CallUse ms) = Use env h b ms"

definition runOptions :: "Env \<Rightarrow> Heap \<Rightarrow> EndpointSpec \<Rightarrow> option_call list \<Rightarrow> Heap \<times> EndpointSpec" where
  "runOptions env h b optFn = foldl (applyOption env) (h, b) optFn"

definition GET ::
  "Env \<Rightarrow> Heap \<Rightarrow> Framework \<Rightarrow> Router \<Rightarrow> string \<Rightarrow> (goval \<Rightarrow> string + goval) \<Rightarrow> rtype \<Rightarrow> rtype
     \<Rightarrow> option_call list \<Rightarrow> (Heap \<times> Framework \<times> EndpointSpec) res" where
  "GET env h f r path handler' Req Resp optFn =
     (case CreateEndpoint env ''GET'' path handler' Req Resp of
        Failed e \<Rightarrow> Failed e
      | Panicked p \<Rightarrow> Panicked p
      | Ok hRoute \<Rightarrow>
          (case runOptions env h hRoute optFn of
             (h', endpoint) \<Rightarrow> Ok (RegisterEndpoint env h' f r endpoint)))"

definition POST ::
  "Env \<Rightarrow> Heap \<Rightarrow> Framework \<Rightarrow> Router \<Rightarrow> string \<Rightarrow> (goval \<Rightarrow> string + goval) \<Rightarrow> rtype \<Rightarrow> rtype
     \<Rightarrow> option_call list \<Rightarrow> (Heap \<times> Framework \<times> EndpointSpec) res" where
  "POST env h f r path handler' Req Resp optFn =
     (case CreateEndpoint env ''POST'' path handler' Req Resp of
        Failed e \<Rightarrow> Failed e
      | Panicked p \<Rightarrow> Panicked p
      | Ok hRoute \<Rightarrow>
          (case runOptions env h hRoute optFn of
             (h', endpoint) \<Rightarrow> Ok (RegisterEndpoint env h' f r endpoint)))"

definition PUT ::
  "Env \<Rightarrow> Heap \<Rightarrow> Framework \<Rightarrow> Router \<Rightarrow> string \<Rightarrow> (goval \<Rightarrow> string + goval) \<Rightarrow> rtype \<Rightarrow> rtype
     \<Rightarrow> option_call list \<Rightarrow> (Heap \<times> Framework \<times> EndpointSpec) res" where
  "PUT env h f r path handler' Req Resp optFn =
     (case CreateEndpoint env ''PUT'' path handler' Req Resp of
        Failed e \<Rightarrow> Failed e
      | Panicked p \<Rightarrow> Panicked p
      | Ok hRoute \<Rightarrow>
          (case runOptions env h hRoute optFn of
             (h', endpoint) \<Rightarrow> Ok (RegisterEndpoint env h' f r endpoint)))"

definition PATCH ::
  "Env \<Rightarrow> Heap \<Rightarrow> Framework \<Rightarrow> Router \<Rightarrow> string \<Rightarrow> (goval \<Rightarrow> string + goval) \<Rightarrow> rtype \<Rightarrow> rtype
     \<Rightarrow> option_call list \<Rightarrow> (Heap \<times> Framework \<times> EndpointSpec) res" where
  "PATCH env h f r path handler' Req Resp optFn =
     (case CreateEndpoint env ''PATH'' path handler' Req Resp of
        Failed e \<Rightarrow> Failed e
      | Panicked p \<Rightarrow> Panicked p
      | Ok hRoute \<Rightarrow>
          (case runOptions env h hRoute optFn of
             (h', endpoint) \<Rightarrow> Ok (RegisterEndpoint env h' f r endpoint)))"

definition DELETE ::
  "Env \<Rightarrow> Heap \<Rightarrow> Framework \<Rightarrow> Router \<Rightarrow> string \<Rightarrow> (goval \<Rightarrow> string + goval) \<Rightarrow> rtype \<Rightarrow> rtype
     \<Rightarrow> option_call list \<Rightarrow> (Heap \<times> Framework \<times> EndpointSpec) res" where
  "DELETE env h f r path handler' Req Resp optFn =
     (case CreateEndpoint env ''DELETE'' path handler' Req Resp of
        Failed e \<Rightarrow> Failed e
      | Panicked p \<Rightarrow> Panicked p
      | Ok hRoute \<Rightarrow>
          (case runOptions env h hRoute optFn of
             (h', endpoint) \<Rightarrow> Ok (RegisterEndpoint env h' f r endpoint)))"

section \<open>Package openapi: \<^verbatim>\<open>generateOperation\<close>\<close>

text \<open>
  A schema, with the fields the generator assigns. \<open>Properties\<close> is a Go map: a list
  of distinct keys, a later assignment replacing an earlier one. A pointer to a
  number is \<open>None\<close> when nil.
\<close>

datatype Schema =
  Schema (Type: string) (Format: string) (Properties: "(string \<times> Schema) list")
         (Required: "string list") (Items: "Schema option")
         (Minimum: "float64 option option") (Maximum: "float64 option option")
         (MinLength: "int option") (MaxLength: "int option")

definition emptySchema :: Schema where
  "emptySchema = Schema [] [] [] [] None None None None None"

record Parameter =
  p_Name :: string
  p_In :: string
  p_Description :: string
  p_Required :: bool
  p_Schema :: Schema

record RequestBody =
  rb_Description :: string
  rb_Required :: bool
  rb_Content :: "(string \<times> Schema) list"

record OpenAPIResponse =
  resp_Description :: string
  resp_Content :: "(string \<times> Schema) list"

record Operation =
  op_Summary :: string
  op_Description :: string
  op_Tags :: "string list"
  op_Parameters :: "Parameter list"
  op_RequestBody :: "RequestBody option"
  op_Responses :: "(string \<times> OpenAPIResponse) list"

definition mapSet :: "(string \<times> 'a) list \<Rightarrow> string \<Rightarrow> 'a \<Rightarrow> (string \<times> 'a) list" where
  "mapSet m key v = filter (\<lambda>(k, _). k \<noteq> key) m @ [(key, v)]"

fun Split :: "string \<Rightarrow> char \<Rightarrow> string list" where
  "Split [] sep = [[]]"
| "Split (c # cs) sep =
     (if c = sep then [] # Split cs sep
      else (case Split cs sep of p # ps \<Rightarrow> (c # p) # ps | [] \<Rightarrow> [[c]]))"

definition TrimSpace :: "string \<Rightarrow> string" where
  "TrimSpace s = rev (dropWhile isSpace (rev (dropWhile isSpace s)))"

fun Contains :: "string \<Rightarrow> string \<Rightarrow> bool" where
  "Contains [] substr = (substr = [])"
| "Contains (c # cs) substr = (take (length substr) (c # cs) = substr \<or> Contains cs substr)"

text \<open>\<^verbatim>\<open>applyValidationToSchema\<close>; a failed scan leaves the number at zero.\<close>

definition applyRule :: "(string \<Rightarrow> float64 option) \<Rightarrow> Schema \<Rightarrow> string \<Rightarrow> Schema" where
  "applyRule scanFloat' schema rule =
     (let parts = Split rule CHR ''='';
          ruleName = TrimSpace (hd parts);
          isNumber = (Type schema = ''number'' \<or> Type schema = ''integer'')
      in case schema of Schema ty fmt props req items mn mx mnl mxl \<Rightarrow>
           if ruleName = ''min'' then
             (if length parts > 1 then
                (if ty = ''string'' then
                   Schema ty fmt props req items mn mx
                     (Some (case scanInt (parts ! 1) of None \<Rightarrow> 0 | Some n \<Rightarrow> n)) mxl
                 else if isNumber then
                   Schema ty fmt props req items (Some (scanFloat' (parts ! 1))) mx mnl mxl
                 else schema)
              else schema)
           else if ruleName = ''max'' then
             (if length parts > 1 then
                (if ty = ''string'' then
                   Schema ty fmt props req items mn mx mnl
                     (Some (case scanInt (parts ! 1) of None \<Rightarrow> 0 | Some n \<Rightarrow> n))
                 else if isNumber then
                   Schema ty fmt props req items mn (Some (scanFloat' (parts ! 1))) mnl mxl
                 else schema)
              else schema)
           else if ruleName = ''email'' then Schema ty ''email'' props req items mn mx mnl mxl
           else if ruleName = ''url'' then Schema ty ''uri'' props req items mn mx mnl mxl
           else schema)"

definition applyValidationToSchema ::
  "(string \<Rightarrow> float64 option) \<Rightarrow> Schema \<Rightarrow> string \<Rightarrow> Schema" where
  "applyValidationToSchema scanFloat' schema validateTag =
     foldl (applyRule scanFloat') schema (Split validateTag CHR '','')"

definition schemaFieldName :: "rfield \<Rightarrow> string" where
  "schemaFieldName field =
     (let jsonTag = Tag_Get field ''json''
      in if jsonTag \<noteq> [] \<and> hd (Split jsonTag CHR '','') \<noteq> [] then hd (Split jsonTag CHR '','')
         else fName field)"

definition addProperty ::
  "(string \<Rightarrow> float64 option) \<Rightarrow> Schema \<Rightarrow> rfield \<Rightarrow> Schema \<Rightarrow> Schema" where
  "addProperty scanFloat' schema field fieldSchema =
     (let validateTag = Tag_Get field ''validate'';
          fieldSchema' = (if validateTag \<noteq> [] then applyValidationToSchema scanFloat' fieldSchema validateTag
                          else fieldSchema);
          required' = (if validateTag \<noteq> [] \<and> Contains validateTag ''required''
                       then Required schema @ [schemaFieldName field] else Required schema)
      in case schema of Schema ty fmt props req items mn mx mnl mxl \<Rightarrow>
           Schema ty fmt (mapSet props (schemaFieldName field) fieldSchema') required' items
             mn mx mnl mxl)"

text \<open>
  The three mutually recursive converters. Descriptors of slice, array and pointer
  types carry their element type.
\<close>

function reflectTypeToSchema :: "(string \<Rightarrow> float64 option) \<Rightarrow> rtype \<Rightarrow> Schema"
and reflectTypeToSchemaExpanded :: "(string \<Rightarrow> float64 option) \<Rightarrow> rtype \<Rightarrow> Schema"
and structToSchemaInternal :: "(string \<Rightarrow> float64 option) \<Rightarrow> rtype \<Rightarrow> Schema"
and internalFields :: "(string \<Rightarrow> float64 option) \<Rightarrow> rfield list \<Rightarrow> Schema \<Rightarrow> Schema"
where
  "reflectTypeToSchema sf (RType n k e fs i) =
     (if k = KString then Schema ''string'' [] [] [] None None None None None
      else if k \<in> {KInt, KInt8, KInt16, KInt32, KInt64} then
        Schema ''integer'' (if k = KInt64 then ''int64'' else ''int32'') [] [] None None None None None
      else if k \<in> {KUint, KUint8, KUint16, KUint32, KUint64} then
        Schema ''integer'' [] [] [] None (Some None) None None None
      else if k = KBool then Schema ''boolean'' [] [] [] None None None None None
      else if k = KFloat32 then Schema ''number'' ''float'' [] [] None None None None None
      else if k = KFloat64 then Schema ''number'' ''double'' [] [] None None None None None
      else if k = KSlice \<or> k = KArray then
        Schema ''array'' [] [] []
          (case e of Some t \<Rightarrow> Some (reflectTypeToSchemaExpanded sf t) | None \<Rightarrow> None)
          None None None None
      else if k = KStruct then Schema ''object'' [] [] [] None None None None None
      else Schema ''string'' [] [] [] None None None None None)"
| "reflectTypeToSchemaExpanded sf (RType n k e fs i) =
     (if k = KPointer then
        (case e of
           Some t \<Rightarrow>
             if Kind t = KStruct then structToSchemaInternal sf t else reflectTypeToSchema sf t
         | None \<Rightarrow> reflectTypeToSchema sf (RType n k e fs i))
      else if k = KStruct then structToSchemaInternal sf (RType n k e fs i)
      else reflectTypeToSchema sf (RType n k e fs i))"
| "structToSchemaInternal sf (RType n k e fs i) =
     (if k = KPointer then
        (case e of
           Some (RType n' k' e' fs' i') \<Rightarrow>
             if k' \<noteq> KStruct then reflectTypeToSchema sf (RType n' k' e' fs' i')
             else internalFields sf fs' (Schema ''object'' [] [] [] None None None None None)
         | None \<Rightarrow> reflectTypeToSchema sf (RType n k e fs i))
      else if k \<noteq> KStruct then reflectTypeToSchema sf (RType n k e fs i)
      else internalFields sf fs (Schema ''object'' [] [] [] None None None None None))"
| "internalFields sf [] schema = schema"
| "internalFields sf (RField fn fp t tg # rest) schema =
     (if fp \<noteq> [] then internalFields sf rest schema
      else if Tag_Get (RField fn fp t tg) ''json'' = ''-'' then internalFields sf rest schema
      else
        internalFields sf rest
          (addProperty sf schema (RField fn fp t tg)
             (if Kind t = KStruct
                 \<or> (Kind t = KPointer \<and> (case ElemT t of Some u \<Rightarrow> Kind u = KStruct | None \<Rightarrow> False))
              then reflectTypeToSchemaExpanded sf t
              else if Kind t = KSlice \<and> (case ElemT t of Some u \<Rightarrow> Kind u = KStruct | None \<Rightarrow> False)
              then reflectTypeToSchema sf t
              else if Kind t = KMap then Schema ''object'' [] [] [] None None None None None
              else reflectTypeToSchema sf t)))"
  by pat_completeness auto
termination
  by (relation "measures
        [\<lambda>x. case x of
               Inl (Inl (sf, t)) \<Rightarrow> size t
             | Inl (Inr (sf, t)) \<Rightarrow> size t
             | Inr (Inl (sf, t)) \<Rightarrow> size t
             | Inr (Inr (sf, fs, schema)) \<Rightarrow> size_list size fs,
         \<lambda>x. case x of
               Inl (Inl _) \<Rightarrow> 0
             | Inl (Inr _) \<Rightarrow> 2
             | Inr (Inl _) \<Rightarrow> Suc 0
             | Inr (Inr _) \<Rightarrow> 0]")
     auto

text \<open>\<^verbatim>\<open>structToSchema\<close>, for the body: the properties are not expanded.\<close>

fun bodyFields :: "(string \<Rightarrow> float64 option) \<Rightarrow> rfield list \<Rightarrow> Schema \<Rightarrow> Schema" where
  "bodyFields sf [] schema = schema"
| "bodyFields sf (field # rest) schema =
     (if \<not> IsExported field then bodyFields sf rest schema
      else if Tag_Get field ''json'' = ''-'' then bodyFields sf rest schema
      else bodyFields sf rest (addProperty sf schema field (reflectTypeToSchema sf (fType field))))"

definition structToSchema :: "(string \<Rightarrow> float64 option) \<Rightarrow> rtype \<Rightarrow> Schema" where
  "structToSchema sf t =
     (let t' = (if Kind t = KPointer then (case ElemT t of Some u \<Rightarrow> u | None \<Rightarrow> t) else t)
      in if Kind t' \<noteq> KStruct then reflectTypeToSchema sf t'
         else bodyFields sf (Fields t') (Schema ''object'' [] [] [] None None None None None))"

definition getErrorSchema :: Schema where
  "getErrorSchema =
     Schema ''object'' []
       [(''error'', Schema ''string'' [] [] [] None None None None None),
        (''details'', Schema ''object'' []
           [(''*'', Schema ''string'' [] [] [] None None None None None)] [] None None None None None)]
       [''error''] None None None None None"

text \<open>
  The loop of \<^verbatim>\<open>generateOperation\<close> over the top-level fields of the request type. It
  carries the operation and the form fields found so far.
\<close>

record genState =
  operation :: Operation
  formFields :: "(string \<times> Schema) list"
  formFieldsRequired :: "string list"
  hasFormFields :: bool

definition addParameter :: "genState \<Rightarrow> Parameter \<Rightarrow> genState" where
  "addParameter st param =
     st\<lparr> operation := (operation st)\<lparr> op_Parameters := op_Parameters (operation st) @ [param] \<rparr> \<rparr>"

definition genField :: "(string \<Rightarrow> float64 option) \<Rightarrow> genState \<Rightarrow> rfield \<Rightarrow> genState" where
  "genField sf st0 field =
     (let required = Contains (Tag_Get field ''validate'') ''required'';
          st1 = (if Tag_Get field ''header'' \<noteq> [] then
                   addParameter st0
                     \<lparr> p_Name = Tag_Get field ''header'', p_In = ''header'',
                       p_Description = Tag_Get field ''doc'', p_Required = required,
                       p_Schema = reflectTypeToSchema sf (fType field) \<rparr>
                 else st0);
          st2 = (if Tag_Get field ''route'' \<noteq> [] then
                   addParameter st1
                     \<lparr> p_Name = Tag_Get field ''route'', p_In = ''path'',
                       p_Description = Tag_Get field ''doc'', p_Required = True,
                       p_Schema = reflectTypeToSchema sf (fType field) \<rparr>
                 else st1);
          st3 = (if Tag_Get field ''query'' \<noteq> [] then
                   addParameter st2
                     \<lparr> p_Name = Tag_Get field ''query'', p_In = ''query'',
                       p_Description = Tag_Get field ''doc'', p_Required = required,
                       p_Schema = reflectTypeToSchema sf (fType field) \<rparr>
                 else st2);
          st4 = (if Tag_Get field ''form'' \<noteq> [] then
                   st3\<lparr> hasFormFields := True,
                        formFields := mapSet (formFields st3) (Tag_Get field ''form'')
                          (if implementsFileUpload (fType field)
                           then Schema ''string'' ''binary'' [] [] None None None None None
                           else reflectTypeToSchema sf (fType field)),
                        formFieldsRequired :=
                          (if required then formFieldsRequired st3 @ [Tag_Get field ''form'']
                           else formFieldsRequired st3) \<rparr>
                 else st3)
      in if Tag_Lookup field ''body'' \<noteq> None then
           st4\<lparr> operation := (operation st4)\<lparr> op_RequestBody :=
                  Some \<lparr> rb_Description = Tag_Get field ''doc'', rb_Required = required,
                         rb_Content = [(''application/json'', structToSchema sf (fType field))] \<rparr> \<rparr> \<rparr>
         else st4)"

definition initialState :: "(string \<Rightarrow> float64 option) \<Rightarrow> EndpointSpec \<Rightarrow> rtype \<Rightarrow> genState" where
  "initialState sf endpoint respType =
     \<lparr> operation =
         \<lparr> op_Summary = Summary endpoint, op_Description = Description endpoint,
           op_Tags = Tags endpoint, op_Parameters = [], op_RequestBody = None,
           op_Responses =
             [(''200'', \<lparr> resp_Description = ''Successful response'',
                  resp_Content = [(''application/json'',
                     reflectTypeToSchemaExpanded sf respType)] \<rparr>),
              (''400'', \<lparr> resp_Description = ''Bad request - validation error'',
                  resp_Content = [(''application/json'', getErrorSchema)] \<rparr>),
              (''500'', \<lparr> resp_Description = ''Internal server error'',
                  resp_Content = [(''application/json'', getErrorSchema)] \<rparr>)] \<rparr>,
       formFields = [], formFieldsRequired = [], hasFormFields = False \<rparr>"

text \<open>After the loop: form fields, when there are any, become the request body.\<close>

definition finalOperation :: "genState \<Rightarrow> Operation" where
  "finalOperation st =
     (if hasFormFields st then
        (operation st)\<lparr> op_RequestBody :=
           Some \<lparr> rb_Description = ''Multipart form data'',
                  rb_Required = (length (formFieldsRequired st) > 0),
                  rb_Content = [(''multipart/form-data'',
                     Schema ''object'' [] (formFields st) (formFieldsRequired st)
                       None None None None None)] \<rparr> \<rparr>
      else operation st)"

definition generateOperation :: "(string \<Rightarrow> float64 option) \<Rightarrow> EndpointSpec \<Rightarrow> Operation res" where
  "generateOperation sf endpoint =
     (case ResponseType endpoint of
        None \<Rightarrow> Panicked ''invalid memory address or nil pointer dereference''
      | Some respType \<Rightarrow>
          (case RequestType endpoint of
             None \<Rightarrow> Panicked ''invalid memory address or nil pointer dereference''
           | Some reqType \<Rightarrow>
               if Kind reqType \<noteq> KStruct then
                 Panicked (''reflect: NumField of non-struct type '' @ Name reqType)
               else
                 Ok (finalOperation
                       (foldl (genField sf) (initialState sf endpoint respType) (Fields reqType)))))"

section \<open>Well-formed slices and programs that use the framework\<close>

text \<open>
  A slice of a heap is well formed when the cells of its view are written, the view
  fits the capacity and its array is allocated. Two slices are separate when they do
  not share a backing array.
\<close>

definition wf_slice :: "Heap \<Rightarrow> slice \<Rightarrow> bool" where
  "wf_slice h s =
     (slen s \<le> length (arrays h (sarr s)) \<and> slen s \<le> scap s \<and> (0 < scap s \<longrightarrow> sarr s < nextp h))"

definition separate :: "slice \<Rightarrow> slice \<Rightarrow> bool" where
  "separate s t = (0 < scap s \<and> 0 < scap t \<longrightarrow> sarr s \<noteq> sarr t)"

text \<open>
  A middleware that records the entry of the request, calls the next handler and
  records the exit.
\<close>

definition tracing :: "string \<Rightarrow> Middleware" where
  "tracing name next' =
     (\<lambda>r w. let w' = next' r (w\<lparr> log := log w @ [Enter name] \<rparr>)
            in w'\<lparr> log := log w' @ [Exit name] \<rparr>)"

text \<open>
  A program that, once a child group is created, calls \<^verbatim>\<open>Use\<close> on the parent and on
  the child in any order; and the middleware each of the two was given.
\<close>

datatype group_op = ParentUse "Middleware list" | ChildUse "Middleware list"

fun runGroupOps :: "Env \<Rightarrow> Heap \<Rightarrow> Group \<Rightarrow> Group \<Rightarrow> group_op list \<Rightarrow> Heap \<times> Group \<times> Group" where
  "runGroupOps env h parent child [] = (h, parent, child)"
| "runGroupOps env h parent child (ParentUse ms # ops) =
     (case Group_Use env h parent ms of (h', parent') \<Rightarrow> runGroupOps env h' parent' child ops)"
| "runGroupOps env h parent child (ChildUse ms # ops) =
     (case Group_Use env h child ms of (h', child') \<Rightarrow> runGroupOps env h' parent child' ops)"

fun parentAdded :: "group_op list \<Rightarrow> Middleware list" where
  "parentAdded [] = []"
| "parentAdded (ParentUse ms # ops) = ms @ parentAdded ops"
| "parentAdded (ChildUse ms # ops) = parentAdded ops"

fun childAdded :: "group_op list \<Rightarrow> Middleware list" where
  "childAdded [] = []"
| "childAdded (ParentUse ms # ops) = childAdded ops"
| "childAdded (ChildUse ms # ops) = ms @ childAdded ops"

subsection \<open>The shapes of the example application\<close>

definition env0 :: Env where
  "env0 = \<lparr> scanFloat = (\<lambda>_. None), parseFloat = (\<lambda>_. None), responderOf = (\<lambda>_. None),
            grow = (\<lambda>oldCap needed. 2 * oldCap) \<rparr>"

definition heap0 :: Heap where
  "heap0 = \<lparr> arrays = (\<lambda>_. []), nextp = 0 \<rparr>"

definition noValidation :: validator where
  "noValidation = (\<lambda>_ _. None)"

definition world0 :: World where
  "world0 = \<lparr> writer = \<lparr> headers = [], statusCode = None, written = [] \<rparr>, log = [],
              panicked = None \<rparr>"

definition stringType :: rtype where
  "stringType = RType ''string'' KString None [] False"

definition boolType :: rtype where
  "boolType = RType ''bool'' KBool None [] False"

definition sliceOf :: "rtype \<Rightarrow> rtype" where
  "sliceOf t = RType (''[]'' @ Name t) KSlice (Some t) [] False"

definition structOf :: "string \<Rightarrow> rfield list \<Rightarrow> rtype" where
  "structOf name fs = RType name KStruct None fs False"

definition NoRequest :: rtype where
  "NoRequest = structOf ''framework.NoRequest'' []"

definition User :: rtype where
  "User = structOf ''main.User''
     [RField ''ID'' [] stringType [(''json'', ''id'')],
      RField ''Name'' [] stringType [(''json'', ''name'')],
      RField ''Email'' [] stringType [(''json'', ''email'')],
      RField ''Age'' [] intType [(''json'', ''age'')]]"

definition APIKeyHeader :: rfield where
  "APIKeyHeader =
     RField ''Header'' []
       (structOf ''struct'' [RField ''APIKey'' [] stringType
          [(''json'', ''X-API-Key''), (''validate'', ''required''),
           (''doc'', ''API authentication key'')]]) []"

definition UserIDRoute :: rfield where
  "UserIDRoute =
     RField ''Route'' []
       (structOf ''struct'' [RField ''UserID'' [] stringType
          [(''json'', ''id''), (''validate'', ''required''), (''doc'', ''User ID'')]]) []"

definition GetUserRequest :: rtype where
  "GetUserRequest = structOf ''main.GetUserRequest''
     [UserIDRoute, APIKeyHeader,
      RField ''Query'' []
        (structOf ''struct'' [RField ''IncludeDetails'' [] boolType
           [(''json'', ''include_details''),
            (''doc'', ''Include detailed user information'')]]) []]"

definition ListUsersRequest :: rtype where
  "ListUsersRequest = structOf ''main.ListUsersRequest''
     [APIKeyHeader,
      RField ''Query'' []
        (structOf ''struct''
           [RField ''Page'' [] intType [(''json'', ''page''), (''validate'', ''omitempty,min=1'')],
            RField ''PageSize'' [] intType
              [(''json'', ''page_size''), (''validate'', ''omitempty,min=1,max=100'')],
            RField ''SortBy'' [] stringType [(''json'', ''sort_by'')],
            RField ''Order'' [] stringType [(''json'', ''order'')],
            RField ''Tags'' [] (sliceOf stringType) [(''json'', ''tags'')]]) []]"

text \<open>The README's filter shape: a query parameter that is a slice of integers.\<close>

definition FilterRequest :: rtype where
  "FilterRequest = structOf ''main.FilterRequest''
     [RField ''Query'' []
        (structOf ''struct'' [RField ''IDs'' [] (sliceOf intType) [(''json'', ''id'')]]) []]"

definition UploadAvatarRequest :: rtype where
  "UploadAvatarRequest = structOf ''main.UploadAvatarRequest''
     [UserIDRoute, APIKeyHeader,
      RField ''Form'' []
        (structOf ''struct'' [RField ''Avatar'' [] FileFieldType
           [(''json'', ''avatar''), (''validate'', ''required''),
            (''doc'', ''Avatar image file'')]]) []]"

definition CreateUserRequest :: rtype where
  "CreateUserRequest = structOf ''main.CreateUserRequest''
     [RField ''Header'' []
        (structOf ''struct''
           [RField ''APIKey'' [] stringType [(''json'', ''X-API-Key''), (''validate'', ''required'')],
            RField ''ContentType'' [] stringType
              [(''json'', ''Content-Type''), (''validate'', ''required,eq=application/json'')]]) [],
      RField ''Body'' []
        (structOf ''struct''
           [RField ''Name'' [] stringType [(''json'', ''name''), (''validate'', ''required,min=3,max=50'')],
            RField ''Email'' [] stringType [(''json'', ''email''), (''validate'', ''required,email'')],
            RField ''Age'' [] intType [(''json'', ''age''), (''validate'', ''required,min=18,max=120'')]]) []]"

text \<open>A request with nothing in it, and one built from it by setting fields.\<close>

definition request0 :: Request where
  "request0 = \<lparr> Header = (\<lambda>_. []), PathValue = (\<lambda>_. []), Query = (\<lambda>_. []), Body = None,
                MultipartForm = Inl ''request Content-Type isn't multipart/form-data'' \<rparr>"

subsection \<open>A group with two tracing middlewares and an endpoint with one\<close>

definition apiGroup :: "Heap \<times> Group" where
  "apiGroup = Group_Use env0 heap0 (Framework_Group ''/api'') [tracing ''A'', tracing ''B'']"

definition pingSpec :: EndpointSpec where
  "pingSpec =
     \<lparr> Method = ''GET'', RelativePath = ''/ping'', FullPath = [], Summary = [],
       Description = [], Tags = [], RequestType = Some NoRequest,
       ResponseType = Some stringType,
       Middlewares = nil_slice, AllMiddlewares = nil_slice,
       handlerPrepFn =
         (\<lambda>validate. createTypeSafeHandler env0 validate (\<lambda>req. Inr (VString ''pong''))
            \<lparr> requestType = NoRequest, fieldParsers = [], hasBodyField = False,
              bodyFieldIdx = 0 \<rparr> stringType) \<rparr>"

definition pingWithC :: "Heap \<times> EndpointSpec" where
  "pingWithC = Use env0 (fst apiGroup) pingSpec [tracing ''C'']"

definition usersGroup :: "Heap \<times> Group" where
  "usersGroup = Group_Group env0 (fst apiGroup) (snd apiGroup) ''/users''"

subsection \<open>Requests and collaborators of the examples\<close>

definition idsBinding :: fieldParser where
  "idsBinding =
     \<lparr> fieldIndex = 0, nestedFieldIndex = 0, isNested = True, fieldType = sliceOf intType,
       fieldKind = KInt, sourceType = ''query'', sourceName = ''id'',
       setter = Some (createFieldSetter (scanFloat env0) KInt), isSlice = True,
       isFileField = False \<rparr>"

definition queryRequest :: "string \<Rightarrow> string list \<Rightarrow> Request" where
  "queryRequest key vals = request0\<lparr> Query := (\<lambda>k. if k = key then vals else []) \<rparr>"

definition avatarBinding :: fieldParser where
  "avatarBinding =
     \<lparr> fieldIndex = 2, nestedFieldIndex = 0, isNested = True, fieldType = FileFieldType,
       fieldKind = KStruct, sourceType = ''form'', sourceName = ''avatar'',
       setter = None, isSlice = False, isFileField = True \<rparr>"



text \<open>
  A violation of the rule \<^verbatim>\<open>required\<close> at the field \<^verbatim>\<open>Form.Avatar\<close> of
  \<^verbatim>\<open>UploadAvatarRequest\<close>, in the form in which the validation collaborator hands
  violations to \<^verbatim>\<open>formatValidationError\<close>.
\<close>

definition avatarRequired :: FieldError where
  "avatarRequired =
     \<lparr> Tag = ''required'', StructNamespace = ''UploadAvatarRequest.Form.Avatar'',
       FieldName = ''Avatar'' \<rparr>"

text \<open>
  A request for \<^verbatim>\<open>CreateUserRequest\<close> with the two headers and a body stream.
\<close>

definition createUserRequest :: "json \<Rightarrow> string \<Rightarrow> Request" where
  "createUserRequest j rest =
     request0\<lparr> Header := (\<lambda>k. if k = ''X-API-Key'' then ''secret-key''
                              else if k = ''Content-Type'' then ''application/json'' else []),
               Body := Some \<lparr> firstValue = Inr j, unread = rest \<rparr> \<rparr>"

definition bodyRequest :: "json \<Rightarrow> string \<Rightarrow> Request" where
  "bodyRequest j rest = request0\<lparr> Body := Some \<lparr> firstValue = Inr j, unread = rest \<rparr> \<rparr>"

definition newUser :: json where
  "newUser = JObject [(''name'', JString ''Ann''), (''email'', JString ''ann@example.org''),
                      (''age'', JNumber ''30'')]"

definition ann :: goval where
  "ann = VStruct [VString ''user-1'', VString ''Ann'', VString ''ann@example.org'', VInt 30]"

definition uploadPlan :: requestParser where
  "uploadPlan =
     \<lparr> requestType = UploadAvatarRequest,
       fieldParsers =
         [\<lparr> fieldIndex = 0, nestedFieldIndex = 0, isNested = True, fieldType = stringType,
            fieldKind = KString, sourceType = ''route'', sourceName = ''id'',
            setter = Some (createFieldSetter (scanFloat env0) KString), isSlice = False,
            isFileField = False \<rparr>,
          \<lparr> fieldIndex = 1, nestedFieldIndex = 0, isNested = True, fieldType = stringType,
            fieldKind = KString, sourceType = ''header'', sourceName = ''X-API-Key'',
            setter = Some (createFieldSetter (scanFloat env0) KString), isSlice = False,
            isFileField = False \<rparr>,
          avatarBinding],
       hasBodyField = False, bodyFieldIdx = 0 \<rparr>"

definition uploadBound :: goval where
  "uploadBound =
     VStruct [VStruct [VString ''user-1''], VStruct [VString ''secret-key''], VStruct [VFile None]]"

definition getUserSpec :: EndpointSpec where
  "getUserSpec =
     \<lparr> Method = ''GET'', RelativePath = ''/{id}'', FullPath = ''/api/v1/users/{id}'',
       Summary = ''Get User'', Description = [], Tags = [''Users''],
       RequestType = Some GetUserRequest, ResponseType = Some User,
       Middlewares = nil_slice, AllMiddlewares = nil_slice,
       handlerPrepFn = (\<lambda>validate r w. w) \<rparr>"

text \<open>The README's shape with the tags on the top-level fields.\<close>

definition FlatGetUserRequest :: rtype where
  "FlatGetUserRequest = structOf ''main.GetUserRequest''
     [RField ''UserID'' [] stringType [(''route'', ''id''), (''doc'', ''User ID'')],
      RField ''APIKey'' [] stringType [(''header'', ''X-API-Key''), (''validate'', ''required'')]]"

definition pageBinding :: fieldParser where
  "pageBinding =
     \<lparr> fieldIndex = 1, nestedFieldIndex = 0, isNested = True, fieldType = intType,
       fieldKind = KInt, sourceType = ''query'', sourceName = ''page'',
       setter = Some (createFieldSetter (scanFloat env0) KInt), isSlice = False,
       isFileField = False \<rparr>"

section \<open>Properties\<close>

subsection \<open>Scanning\<close>

lemma SkipSpace_Nil [simp]: "SkipSpace [] = Some []"
  by (simp add: SkipSpace.simps)

lemma SkipSpace_Cons:
  "SkipSpace (c # cs) =
     (if c = CHR 0x0A then None
      else if spaceWidth (c # cs) = 0 then Some (c # cs)
      else SkipSpace (drop (spaceWidth (c # cs)) (c # cs)))"
  by (subst SkipSpace.simps) simp

lemma SkipSpace_no_blank:
  assumes "spaceWidth (c # cs) = 0"
  shows "SkipSpace (c # cs) = Some (c # cs)"
proof -
  from assms have "\<not> isSpace c" by (simp add: spaceWidth_def split: if_splits)
  then have "c \<noteq> CHR 0x0A" by (auto simp: isSpace_def)
  with assms show ?thesis by (simp add: SkipSpace_Cons)
qed

lemma scanInt_no_number:
  assumes "spaceWidth (c # cs) = 0" and "c \<noteq> CHR ''+''" and "c \<noteq> CHR ''-''" and "\<not> isDigit c"
  shows "scanInt (c # cs) = None"
  using assms by (simp add: scanInt_def scanNumber_def SkipSpace_no_blank)

lemma scanUint_no_number:
  assumes "spaceWidth (c # cs) = 0" and "\<not> isDigit c"
  shows "scanUint (c # cs) = None"
  using assms by (simp add: scanUint_def scanNumber_def SkipSpace_no_blank)

lemma scan_rejects_no_number:
  assumes "spaceWidth (c # cs) = 0" and "c \<noteq> CHR ''+''" and "c \<noteq> CHR ''-''" and "\<not> isDigit c"
  shows "scanRejects k (c # cs)"
  using assms by (simp add: scanRejects_def scanInt_no_number scanUint_no_number)

lemmas scan_defs = scanInt_def scanUint_def scanNumber_def SkipSpace_Cons spaceWidth_def
  isSpace_def isDigit_def decimal_def digitVal_def

subsection \<open>The converters\<close>

text \<open>
  Claim C9. The compiled boolean converter is total and never fails: applied to a field
  of kind bool, for every input text it stores true exactly when the text is
  \<^verbatim>\<open>"true"\<close> or \<^verbatim>\<open>"1"\<close>, false for any other text, and it returns no error.
\<close>

theorem C9_bool_converter_total:
  "createFieldSetter scan KBool KBool value = Ok (VBool (value = ''true'' \<or> value = ''1''))"
  by (simp add: createFieldSetter_def SetBool_def)

lemma createFieldSetter_no_panic: "createFieldSetter sf k k v \<noteq> Panicked p"
  by (auto simp: createFieldSetter_def SetString_def SetInt_def SetUint_def SetBool_def
      SetFloat_def split: option.splits)

subsection \<open>The walker\<close>

lemma parseNestedFields_binding:
  assumes "parseNestedFields sf parentIndex src j fs = Ok ps" and "fp \<in> set ps"
  shows "sourceType fp = src \<and> isNested fp \<and> fieldIndex fp = parentIndex \<and> \<not> isFileField fp
       \<and> isSlice fp = (Kind (fieldType fp) = KSlice)
       \<and> (isSlice fp \<longrightarrow>
            (\<exists>e. ElemT (fieldType fp) = Some e \<and> setter fp = Some (createFieldSetter sf (Kind e))))
       \<and> (\<not> isSlice fp \<longrightarrow> setter fp = Some (createFieldSetter sf (Kind (fieldType fp))))"
  using assms
proof (induction fs arbitrary: j ps)
  case Nil
  then show ?case by simp
next
  case (Cons f fs)
  show ?case
  proof (cases "IsExported f")
    case False
    with Cons.prems(1) have "parseNestedFields sf parentIndex src (Suc j) fs = Ok ps" by simp
    from Cons.IH[OF this Cons.prems(2)] show ?thesis .
  next
    case True
    with Cons.prems(1) obtain k rest where
      k: "(if Kind (fType f) = KSlice
           then (case Elem (fType f) of Ok e \<Rightarrow> Ok (Kind e) | Failed x \<Rightarrow> Failed x
                 | Panicked p \<Rightarrow> Panicked p)
           else Ok (Kind (fType f))) = Ok k"
      and r: "parseNestedFields sf parentIndex src (Suc j) fs = Ok rest"
      and ps: "ps = \<lparr> fieldIndex = parentIndex, nestedFieldIndex = j, isNested = True,
                      fieldType = fType f, fieldKind = k, sourceType = src,
                      sourceName = jsonTagOrName f,
                      setter = Some (createFieldSetter sf k),
                      isSlice = (Kind (fType f) = KSlice), isFileField = False \<rparr> # rest"
      by (auto simp: Let_def split: res.splits)
    show ?thesis
    proof (cases "fp \<in> set rest")
      case True
      from Cons.IH[OF r True] show ?thesis .
    next
      case False
      with Cons.prems(2) ps have fp: "fp = \<lparr> fieldIndex = parentIndex, nestedFieldIndex = j,
                      isNested = True,
                      fieldType = fType f, fieldKind = k, sourceType = src,
                      sourceName = jsonTagOrName f,
                      setter = Some (createFieldSetter sf k),
                      isSlice = (Kind (fType f) = KSlice), isFileField = False \<rparr>"
        by simp
      show ?thesis
      proof (cases "Kind (fType f) = KSlice")
        case True
        with k obtain e where "ElemT (fType f) = Some e" "k = Kind e"
          by (auto simp: Elem_def split: option.splits res.splits)
        with True fp show ?thesis by simp
      next
        case False
        with k have "k = Kind (fType f)" by simp
        with False fp show ?thesis by simp
      qed
    qed
  qed
qed

lemma parseFormFields_binding:
  "fp \<in> set (parseFormFields parentIndex j fs) \<Longrightarrow> sourceType fp = ''form''"
  by (induction fs arbitrary: j) (auto split: if_splits)

lemma buildFields_bindings:
  assumes "buildFields sf i fs p = Ok q" and "\<forall>fp \<in> set (fieldParsers p). compiled sf fp"
  shows "\<forall>fp \<in> set (fieldParsers q). compiled sf fp"
  using assms
proof (induction fs arbitrary: i p)
  case Nil
  then show ?case by simp
next
  case (Cons f fs)
  show ?case
  proof (cases "IsExported f \<and> Kind (fType f) = KStruct")
    case False
    with Cons.prems(1) have "buildFields sf (Suc i) fs p = Ok q" by (auto split: if_splits)
    from Cons.IH[OF this Cons.prems(2)] show ?thesis .
  next
    case True
    consider (grp) "fName f \<in> {''Route'', ''Header'', ''Query''}"
      | (form) "fName f = ''Form''"
      | (body) "fName f = ''Body''"
      | (other) "fName f \<notin> {''Route'', ''Header'', ''Query'', ''Form'', ''Body''}"
      by auto
    then show ?thesis
    proof cases
      case grp
      define src where "src = (if fName f = ''Route'' then ''route''
                    else if fName f = ''Header'' then ''header'' else ''query'')"
      from grp True Cons.prems(1) obtain ps where
        ps: "parseNestedStruct sf (fType f) i src = Ok ps"
        and b: "buildFields sf (Suc i) fs (p\<lparr> fieldParsers := fieldParsers p @ ps \<rparr>) = Ok q"
        unfolding src_def by (auto split: res.splits)
      have src: "src \<in> {''route'', ''header'', ''query''}" by (simp add: src_def)
      have "\<forall>fp \<in> set ps. compiled sf fp"
      proof
        fix fp assume "fp \<in> set ps"
        from parseNestedFields_binding[OF ps[unfolded parseNestedStruct_def] this] src
        show "compiled sf fp" unfolding compiled_def by auto
      qed
      with Cons.prems(2) have "\<forall>fp \<in> set (fieldParsers (p\<lparr> fieldParsers := fieldParsers p @ ps \<rparr>)).
          compiled sf fp" by auto
      from Cons.IH[OF b this] show ?thesis .
    next
      case form
      with True Cons.prems(1) have
        b: "buildFields sf (Suc i) fs (p\<lparr> fieldParsers :=
                fieldParsers p @ parseNestedStructForForm (fType f) i \<rparr>) = Ok q"
        by simp
      have "\<forall>fp \<in> set (parseNestedStructForForm (fType f) i). compiled sf fp"
        by (auto simp: parseNestedStructForForm_def compiled_def dest: parseFormFields_binding)
      with Cons.prems(2) have "\<forall>fp \<in> set (fieldParsers (p\<lparr> fieldParsers :=
                fieldParsers p @ parseNestedStructForForm (fType f) i \<rparr>)). compiled sf fp" by auto
      from Cons.IH[OF b this] show ?thesis .
    next
      case body
      with True Cons.prems(1) have
        b: "buildFields sf (Suc i) fs (p\<lparr> hasBodyField := True, bodyFieldIdx := i \<rparr>) = Ok q"
        by simp
      from Cons.prems(2) have "\<forall>fp \<in> set (fieldParsers (p\<lparr> hasBodyField := True, bodyFieldIdx := i \<rparr>)).
          compiled sf fp" by simp
      from Cons.IH[OF b this] show ?thesis .
    next
      case other
      with True Cons.prems(1) have "buildFields sf (Suc i) fs p = Ok q" by auto
      from Cons.IH[OF this Cons.prems(2)] show ?thesis .
    qed
  qed
qed

lemma buildRequestParser_bindings:
  assumes "buildRequestParser sf t = Ok parser" and "fp \<in> set (fieldParsers parser)"
  shows "compiled sf fp"
proof -
  from assms(1) have "buildFields sf 0 (Fields t)
      \<lparr> requestType = t, fieldParsers = [], hasBodyField = False, bodyFieldIdx = 0 \<rparr> = Ok parser"
    by (simp add: buildRequestParser_def split: if_splits)
  from buildFields_bindings[OF this] assms(2) show ?thesis by simp
qed

subsection \<open>Slices\<close>

lemma length_elems: "wf_slice h s \<Longrightarrow> length (elems h s) = slen s"
  by (simp add: wf_slice_def elems_def)

lemma go_append_elems:
  assumes "wf_slice h s" and "go_append env h s xs = (h', s')"
  shows "elems h' s' = elems h s @ xs"
proof (cases "slen s + length xs \<le> scap s")
  case True
  with assms(2) have h': "arrays h' (sarr s) =
      take (slen s) (arrays h (sarr s)) @ xs @ drop (slen s + length xs) (arrays h (sarr s))"
    and s': "sarr s' = sarr s" "slen s' = slen s + length xs"
    by (auto simp: go_append_def Let_def)
  from assms(1) have "length (take (slen s) (arrays h (sarr s))) = slen s"
    by (simp add: wf_slice_def)
  then show ?thesis by (simp add: elems_def h' s')
next
  case False
  with assms(2) have h': "arrays h' (nextp h) = elems h s @ xs"
    and s': "sarr s' = nextp h" "slen s' = slen s + length xs"
    by (auto simp: go_append_def Let_def)
  show ?thesis using length_elems[OF assms(1)] by (simp add: elems_def[of h' s'] h' s')
qed

lemma go_append_wf:
  assumes "wf_slice h s" and "go_append env h s xs = (h', s')"
  shows "wf_slice h' s'"
proof (cases "slen s + length xs \<le> scap s")
  case True
  with assms show ?thesis
    by (cases "xs = []") (auto simp: go_append_def Let_def wf_slice_def)
next
  case False
  with assms show ?thesis
    by (auto simp: go_append_def Let_def wf_slice_def elems_def)
qed

lemma go_append_frame:
  assumes "wf_slice h s" and "wf_slice h t" and "go_append env h s xs = (h', s')"
    and "0 < scap s \<and> 0 < scap t \<and> sarr t = sarr s \<longrightarrow> slen t \<le> slen s"
  shows "elems h' t = elems h t \<and> wf_slice h' t"
proof (cases "slen s + length xs \<le> scap s")
  case True
  with assms(3) have h': "arrays h' = (arrays h)(sarr s :=
      take (slen s) (arrays h (sarr s)) @ xs @ drop (slen s + length xs) (arrays h (sarr s)))"
     and n: "nextp h' = nextp h"
    by (auto simp: go_append_def Let_def)
  from assms(1) have l: "slen s \<le> length (arrays h (sarr s))" by (simp add: wf_slice_def)
  show ?thesis
  proof (cases "sarr t = sarr s")
    case False
    then show ?thesis using assms(2) by (simp add: elems_def h' n wf_slice_def)
  next
    case same: True
    show ?thesis
    proof (cases "0 < scap t")
      case False
      with assms(2) have "slen t = 0" by (simp add: wf_slice_def)
      then show ?thesis using False by (simp add: elems_def wf_slice_def)
    next
      case capt: True
      show ?thesis
      proof (cases "0 < scap s")
        case False
        with True have "xs = []" "slen s = 0" by simp_all
        then have "arrays h' = arrays h" by (simp add: h')
        then show ?thesis using assms(2) n by (simp add: elems_def wf_slice_def)
      next
        case True
        with assms(4) capt same have le: "slen t \<le> slen s" by simp
        have "take (slen t) (take (slen s) (arrays h (sarr s)) @ xs @
                drop (slen s + length xs) (arrays h (sarr s))) = take (slen t) (arrays h (sarr s))"
          using le l by simp
        then show ?thesis using assms(2) same le l by (auto simp: elems_def h' n wf_slice_def)
      qed
    qed
  qed
next
  case False
  with assms(3) have h': "arrays h' = (arrays h)(nextp h := elems h s @ xs)"
     and n: "nextp h' = Suc (nextp h)"
    by (auto simp: go_append_def Let_def)
  show ?thesis
  proof (cases "0 < scap t")
    case True
    with assms(2) have "sarr t \<noteq> nextp h" by (auto simp: wf_slice_def)
    then show ?thesis using assms(2) by (auto simp: elems_def h' n wf_slice_def)
  next
    case False
    with assms(2) have "slen t = 0" by (simp add: wf_slice_def)
    then show ?thesis using False by (simp add: elems_def wf_slice_def)
  qed
qed

lemma go_append_separate:
  assumes "wf_slice h s" and "wf_slice h t" and "go_append env h s xs = (h', s')"
    and "separate s t"
  shows "separate s' t"
proof (cases "slen s + length xs \<le> scap s")
  case True
  with assms(3) have "sarr s' = sarr s" "scap s' = scap s" by (auto simp: go_append_def Let_def)
  with assms(4) show ?thesis by (simp add: separate_def)
next
  case False
  with assms(3) have "sarr s' = nextp h" by (auto simp: go_append_def Let_def)
  with assms(2) show ?thesis by (auto simp: separate_def wf_slice_def)
qed

lemma separate_sym: "separate s t \<Longrightarrow> separate t s"
  by (auto simp: separate_def)

lemma wf_nil_slice: "wf_slice h nil_slice"
  by (simp add: wf_slice_def nil_slice_def)

subsection \<open>Groups and the middleware chain\<close>

lemma Group_Group_copy:
  assumes "wf_slice h (middlewares g)" and "Group_Group env h g p = (h1, c)"
  shows "elems h1 (middlewares c) = elems h (middlewares g)
       \<and> elems h1 (middlewares g) = elems h (middlewares g)
       \<and> wf_slice h1 (middlewares c) \<and> wf_slice h1 (middlewares g)
       \<and> separate (middlewares g) (middlewares c) \<and> prefix c = prefix g @ p"
proof -
  from assms(2) obtain s where a: "go_append env h nil_slice (elems h (middlewares g)) = (h1, s)"
    and c: "c = \<lparr> prefix = prefix g @ p, middlewares = s \<rparr>"
    by (auto simp: Group_Group_def split: prod.splits)
  have nil0: "0 < scap nil_slice \<and> 0 < scap (middlewares g) \<and> sarr (middlewares g) = sarr nil_slice
      \<longrightarrow> slen (middlewares g) \<le> slen nil_slice"
    by (simp add: nil_slice_def)
  from go_append_elems[OF wf_nil_slice a] have e: "elems h1 s = elems h (middlewares g)"
    by (simp add: elems_def nil_slice_def)
  from go_append_frame[OF wf_nil_slice assms(1) a nil0]
  have f: "elems h1 (middlewares g) = elems h (middlewares g)" "wf_slice h1 (middlewares g)"
    by simp_all
  have "separate nil_slice (middlewares g)" by (simp add: separate_def nil_slice_def)
  from go_append_separate[OF wf_nil_slice assms(1) a this]
  have "separate (middlewares g) s" by (rule separate_sym)
  with e f go_append_wf[OF wf_nil_slice a] c show ?thesis by simp
qed

lemma Group_Use_effect:
  assumes "wf_slice h (middlewares g)" and "wf_slice h t" and "separate (middlewares g) t"
    and "Group_Use env h g ms = (h', g')"
  shows "elems h' (middlewares g') = elems h (middlewares g) @ ms \<and> elems h' t = elems h t
       \<and> wf_slice h' (middlewares g') \<and> wf_slice h' t \<and> separate (middlewares g') t
       \<and> prefix g' = prefix g"
proof -
  from assms(4) obtain s where a: "go_append env h (middlewares g) ms = (h', s)"
    and g': "g' = g\<lparr> middlewares := s \<rparr>"
    by (auto simp: Group_Use_def split: prod.splits)
  from assms(3) have c: "0 < scap (middlewares g) \<and> 0 < scap t \<and> sarr t = sarr (middlewares g)
      \<longrightarrow> slen t \<le> slen (middlewares g)"
    by (auto simp: separate_def)
  from go_append_elems[OF assms(1) a] go_append_wf[OF assms(1) a]
       go_append_frame[OF assms(1,2) a c] go_append_separate[OF assms(1,2) a assms(3)] g'
  show ?thesis by simp
qed

lemma runGroupOps_lists:
  assumes "wf_slice h (middlewares parent)" and "wf_slice h (middlewares child)"
    and "separate (middlewares parent) (middlewares child)"
    and "runGroupOps env h parent child ops = (h', parent', child')"
  shows "elems h' (middlewares parent') = elems h (middlewares parent) @ parentAdded ops
       \<and> elems h' (middlewares child') = elems h (middlewares child) @ childAdded ops
       \<and> wf_slice h' (middlewares parent') \<and> wf_slice h' (middlewares child')
       \<and> prefix parent' = prefix parent \<and> prefix child' = prefix child"
  using assms
proof (induction ops arbitrary: h parent child)
  case Nil
  then show ?case by simp
next
  case (Cons op ops)
  show ?case
  proof (cases op)
    case (ParentUse ms)
    with Cons.prems(4) obtain h1 p1 where
      u: "Group_Use env h parent ms = (h1, p1)" and
      r: "runGroupOps env h1 p1 child ops = (h', parent', child')"
      by (auto split: prod.splits)
    from Group_Use_effect[OF Cons.prems(1,2,3) u]
    have e: "elems h1 (middlewares p1) = elems h (middlewares parent) @ ms"
      "elems h1 (middlewares child) = elems h (middlewares child)"
      "wf_slice h1 (middlewares p1)" "wf_slice h1 (middlewares child)"
      "separate (middlewares p1) (middlewares child)" "prefix p1 = prefix parent"
      by simp_all
    from Cons.IH[OF e(3,4,5) r] e(1,2,6) ParentUse show ?thesis by simp
  next
    case (ChildUse ms)
    with Cons.prems(4) obtain h1 c1 where
      u: "Group_Use env h child ms = (h1, c1)" and
      r: "runGroupOps env h1 parent c1 ops = (h', parent', child')"
      by (auto split: prod.splits)
    from Group_Use_effect[OF Cons.prems(2,1) separate_sym[OF Cons.prems(3)] u]
    have e: "elems h1 (middlewares c1) = elems h (middlewares child) @ ms"
      "elems h1 (middlewares parent) = elems h (middlewares parent)"
      "wf_slice h1 (middlewares c1)" "wf_slice h1 (middlewares parent)"
      "separate (middlewares c1) (middlewares parent)" "prefix c1 = prefix child"
      by simp_all
    from Cons.IH[OF e(4,3) separate_sym[OF e(5)] r] e(1,2,6) ChildUse show ?thesis by simp
  qed
qed

lemma wrapFrom_foldr:
  "n \<le> length ms \<Longrightarrow> wrapFrom ms n k = foldr (\<lambda>m next'. m next') (take n ms) k"
proof (induction n arbitrary: k)
  case 0 show ?case by simp
next
  case (Suc n)
  then have "n < length ms" by simp
  then have "take (Suc n) ms = take n ms @ [ms ! n]" by (rule take_Suc_conv_app_nth)
  with Suc show ?case by simp
qed

lemma tracing_chain:
  "foldr (\<lambda>m next'. m next') (map tracing names) k r w =
     (let w' = k r (w\<lparr> log := log w @ map Enter names \<rparr>)
      in w'\<lparr> log := log w' @ map Exit (rev names) \<rparr>)"
proof (induction names arbitrary: w)
  case Nil show ?case by (simp add: Let_def)
next
  case (Cons a names)
  show ?case by (simp add: tracing_def[of a] Cons.IH Let_def)
qed

lemma RegisterEndpoint_chain:
  assumes "wf_slice h (getMiddlewares router)" and "wf_slice h (Middlewares e)"
    and "RegisterEndpoint env h f router e = (h', f', route)"
  shows "elems h' (AllMiddlewares route) = elems h (getMiddlewares router) @ elems h (Middlewares e)
       \<and> FullPath route = getPrefix router @ RelativePath e
       \<and> endpoints f' = endpoints f @ [route]
       \<and> mux f' = mux f @
           [(Method e @ '' '' @ getPrefix router @ RelativePath e,
             foldr (\<lambda>m next'. m next')
               (elems h (getMiddlewares router) @ elems h (Middlewares e))
               (handlerPrepFn e (validator f)))]"
proof -
  from assms(3) obtain s where a: "go_append env h (getMiddlewares router) (elems h (Middlewares e)) = (h', s)"
    and route: "route = e\<lparr> AllMiddlewares := s, FullPath := getPrefix router @ RelativePath e \<rparr>"
    and f': "f' = f\<lparr> endpoints := endpoints f @ [route],
                mux := mux f @ [(Method e @ '' '' @ getPrefix router @ RelativePath e,
                  wrapFrom (arrays h' (sarr s)) (slen s) (handlerPrepFn e (validator f)))] \<rparr>"
    by (auto simp: RegisterEndpoint_def Let_def split: prod.splits)
  from go_append_elems[OF assms(1) a]
  have el: "elems h' s = elems h (getMiddlewares router) @ elems h (Middlewares e)" .
  from go_append_wf[OF assms(1) a] have "slen s \<le> length (arrays h' (sarr s))"
    by (simp add: wf_slice_def)
  from wrapFrom_foldr[OF this]
  have "wrapFrom (arrays h' (sarr s)) (slen s) (handlerPrepFn e (validator f)) =
        foldr (\<lambda>m next'. m next') (elems h' s) (handlerPrepFn e (validator f))"
    by (simp add: elems_def)
  with el route f' show ?thesis by simp
qed

lemma CreateEndpoint_ping: "CreateEndpoint env0 ''GET'' ''/ping'' (\<lambda>req. Inr (VString ''pong'')) NoRequest stringType = Ok pingSpec"
  by (simp add: CreateEndpoint_def buildRequestParser_def NoRequest_def structOf_def pingSpec_def
      TypeOf_def stringType_def env0_def)

lemma apiGroup_eval:
  "apiGroup = (\<lparr> arrays = (\<lambda>_. [])(0 := [tracing ''A'', tracing ''B'']), nextp = Suc 0 \<rparr>,
               \<lparr> prefix = ''/api'', middlewares = \<lparr> sarr = 0, slen = 2, scap = 2 \<rparr> \<rparr>)"
  by (simp add: apiGroup_def Group_Use_def Framework_Group_def go_append_def nil_slice_def
      heap0_def env0_def elems_def Let_def)

lemma pingWithC_eval:
  "pingWithC = (\<lparr> arrays = ((\<lambda>_. [])(0 := [tracing ''A'', tracing ''B'']))(Suc 0 := [tracing ''C'']),
                  nextp = Suc (Suc 0) \<rparr>,
                pingSpec\<lparr> Middlewares := \<lparr> sarr = Suc 0, slen = 1, scap = 1 \<rparr> \<rparr>)"
  by (simp add: pingWithC_def apiGroup_eval Use_def go_append_def nil_slice_def pingSpec_def
      env0_def elems_def Let_def)

lemma usersGroup_eval:
  "usersGroup =
     (\<lparr> arrays = ((\<lambda>_. [])(0 := [tracing ''A'', tracing ''B'']))
                    (Suc 0 := [tracing ''A'', tracing ''B'']),
        nextp = Suc (Suc 0) \<rparr>,
      \<lparr> prefix = ''/api/users'', middlewares = \<lparr> sarr = Suc 0, slen = 2, scap = 2 \<rparr> \<rparr>)"
  by (simp add: usersGroup_def apiGroup_eval Group_Group_def go_append_def nil_slice_def
      env0_def elems_def Let_def)

text \<open>
  Claim C2. An endpoint registered on a router whose middleware list is \<open>gms\<close>, with
  its own middleware \<open>ems\<close>, gets the chain \<open>gms @ ems\<close>, and the handler given to the
  multiplexer is the prepared handler wrapped so that the first middleware is the
  outermost: for \<open>[A, B]\<close> and \<open>[C]\<close> it is \<open>A (B (C handler))\<close>. With middlewares
  that record entry and exit, a request logs the entries in the order of the chain,
  then what the handler logs, then the exits in the reverse order.
\<close>

theorem C2_middleware_order:
  assumes "wf_slice h (getMiddlewares router)" and "wf_slice h (Middlewares e)"
    and "RegisterEndpoint env h f router e = (h', f', route)"
    and "elems h (getMiddlewares router) = gms" and "elems h (Middlewares e) = ems"
  shows "elems h' (AllMiddlewares route) = gms @ ems
       \<and> snd (last (mux f')) = foldr (\<lambda>m next'. m next') (gms @ ems) (handlerPrepFn e (validator f))
       \<and> (\<forall>A B C. gms = [A, B] \<longrightarrow> ems = [C] \<longrightarrow>
            snd (last (mux f')) = A (B (C (handlerPrepFn e (validator f)))))
       \<and> (\<forall>names1 names2 r w. gms = map tracing names1 \<longrightarrow> ems = map tracing names2 \<longrightarrow>
            snd (last (mux f')) r w =
              (let w' = handlerPrepFn e (validator f) r (w\<lparr> log := log w @ map Enter (names1 @ names2) \<rparr>)
               in w'\<lparr> log := log w' @ map Exit (rev (names1 @ names2)) \<rparr>))"
proof -
  from RegisterEndpoint_chain[OF assms(1,2,3)] assms(4,5)
  have a: "elems h' (AllMiddlewares route) = gms @ ems"
    and m: "snd (last (mux f')) = foldr (\<lambda>m next'. m next') (gms @ ems) (handlerPrepFn e (validator f))"
    by simp_all
  have t: "\<And>names1 names2 r w. gms = map tracing names1 \<Longrightarrow> ems = map tracing names2 \<Longrightarrow>
            snd (last (mux f')) r w =
              (let w' = handlerPrepFn e (validator f) r (w\<lparr> log := log w @ map Enter (names1 @ names2) \<rparr>)
               in w'\<lparr> log := log w' @ map Exit (rev (names1 @ names2)) \<rparr>)"
  proof -
    fix names1 names2 r w
    assume "gms = map tracing names1" "ems = map tracing names2"
    then have "gms @ ems = map tracing (names1 @ names2)" by simp
    then show "snd (last (mux f')) r w =
              (let w' = handlerPrepFn e (validator f) r (w\<lparr> log := log w @ map Enter (names1 @ names2) \<rparr>)
               in w'\<lparr> log := log w' @ map Exit (rev (names1 @ names2)) \<rparr>)"
      unfolding m by (simp only: tracing_chain)
  qed
  from a m t show ?thesis by (simp del: foldr_append)
qed

text \<open>
  The group \<^verbatim>\<open>/api\<close> with the tracing middlewares A and B, the endpoint
  \<^verbatim>\<open>GET /ping\<close> with C: the request runs A, B, C, the validator and the handler, and
  leaves through C, B, A.
\<close>

theorem C2_middleware_order_witness:
  "log (snd (last (mux (fst (snd (RegisterEndpoint env0 (fst pingWithC) (New noValidation)
          (GroupRouter (snd apiGroup)) (snd pingWithC)))))) request0 world0)
   = [Enter ''A'', Enter ''B'', Enter ''C'', ValidatorRun, HandlerRun,
      Exit ''C'', Exit ''B'', Exit ''A'']"
proof -
  have wf1: "wf_slice (fst pingWithC) (getMiddlewares (GroupRouter (snd apiGroup)))"
    by (simp add: pingWithC_eval apiGroup_eval wf_slice_def)
  have wf2: "wf_slice (fst pingWithC) (Middlewares (snd pingWithC))"
    by (simp add: pingWithC_eval wf_slice_def)
  have g: "elems (fst pingWithC) (getMiddlewares (GroupRouter (snd apiGroup)))
             = map tracing [''A'', ''B'']"
    by (simp add: pingWithC_eval apiGroup_eval elems_def)
  have o: "elems (fst pingWithC) (Middlewares (snd pingWithC)) = map tracing [''C'']"
    by (simp add: pingWithC_eval elems_def)
  have reg: "RegisterEndpoint env0 (fst pingWithC) (New noValidation)
          (GroupRouter (snd apiGroup)) (snd pingWithC) =
        (fst (RegisterEndpoint env0 (fst pingWithC) (New noValidation)
          (GroupRouter (snd apiGroup)) (snd pingWithC)),
         fst (snd (RegisterEndpoint env0 (fst pingWithC) (New noValidation)
          (GroupRouter (snd apiGroup)) (snd pingWithC))),
         snd (snd (RegisterEndpoint env0 (fst pingWithC) (New noValidation)
          (GroupRouter (snd apiGroup)) (snd pingWithC))))"
    by simp
  have run: "log (handlerPrepFn (snd pingWithC) (validator (New noValidation)) request0
               (world0\<lparr> log := log world0 @ map Enter ([''A'', ''B''] @ [''C'']) \<rparr>))
             = [Enter ''A'', Enter ''B'', Enter ''C'', ValidatorRun, HandlerRun]"
    by (simp add: pingWithC_eval pingSpec_def New_def noValidation_def createTypeSafeHandler_def
        parseWithPlan_def validateRequest_def NoRequest_def structOf_def world0_def)
  from C2_middleware_order[OF wf1 wf2 reg g o]
  have "snd (last (mux (fst (snd (RegisterEndpoint env0 (fst pingWithC) (New noValidation)
          (GroupRouter (snd apiGroup)) (snd pingWithC)))))) request0 world0 =
        (let w' = handlerPrepFn (snd pingWithC) (validator (New noValidation)) request0
                    (world0\<lparr> log := log world0 @ map Enter ([''A'', ''B''] @ [''C'']) \<rparr>)
         in w'\<lparr> log := log w' @ map Exit (rev ([''A'', ''B''] @ [''C''])) \<rparr>)"
    by blast
  then show ?thesis using run by (simp add: Let_def)
qed

text \<open>
  Claim C7. A child group starts with a copy of the parent's middleware list as it is
  when the child is created. Whatever \<^verbatim>\<open>Use\<close> calls follow on the parent and on the
  child, in any order, the child's list is that copy followed by the middleware given
  to the child, and the parent's list is its old list followed by the middleware given
  to the parent: nothing added to one shows in the other. The chain of an endpoint
  registered on the child afterwards is the child's list followed by the endpoint's
  own middleware.
\<close>

theorem C7_child_group_snapshot:
  assumes "wf_slice h (middlewares parent)" and "Group_Group env h parent p = (h1, child)"
    and "runGroupOps env h1 parent child ops = (h2, parent', child')"
  shows "elems h1 (middlewares child) = elems h (middlewares parent)
       \<and> elems h2 (middlewares child') = elems h (middlewares parent) @ childAdded ops
       \<and> elems h2 (middlewares parent') = elems h (middlewares parent) @ parentAdded ops
       \<and> (\<forall>e f h3 f' route.
             wf_slice h2 (Middlewares e) \<longrightarrow>
             RegisterEndpoint env h2 f (GroupRouter child') e = (h3, f', route) \<longrightarrow>
             elems h3 (AllMiddlewares route) =
               elems h (middlewares parent) @ childAdded ops @ elems h2 (Middlewares e))"
proof -
  from Group_Group_copy[OF assms(1,2)]
  have c: "elems h1 (middlewares child) = elems h (middlewares parent)"
    "elems h1 (middlewares parent) = elems h (middlewares parent)"
    "wf_slice h1 (middlewares child)" "wf_slice h1 (middlewares parent)"
    "separate (middlewares parent) (middlewares child)"
    by simp_all
  from runGroupOps_lists[OF c(4,3,5) assms(3)] c(1,2)
  have r: "elems h2 (middlewares parent') = elems h (middlewares parent) @ parentAdded ops"
    "elems h2 (middlewares child') = elems h (middlewares parent) @ childAdded ops"
    "wf_slice h2 (middlewares child')"
    by simp_all
  have "\<And>e f h3 f' route.
          wf_slice h2 (Middlewares e) \<Longrightarrow>
          RegisterEndpoint env h2 f (GroupRouter child') e = (h3, f', route) \<Longrightarrow>
          elems h3 (AllMiddlewares route) =
            elems h (middlewares parent) @ childAdded ops @ elems h2 (Middlewares e)"
  proof -
    fix e f h3 f' route
    assume w: "wf_slice h2 (Middlewares e)"
      and g: "RegisterEndpoint env h2 f (GroupRouter child') e = (h3, f', route)"
    from r(3) have "wf_slice h2 (getMiddlewares (GroupRouter child'))" by simp
    from RegisterEndpoint_chain[OF this w g] r(2)
    show "elems h3 (AllMiddlewares route) =
            elems h (middlewares parent) @ childAdded ops @ elems h2 (Middlewares e)"
      by simp
  qed
  with c(1) r(1,2) show ?thesis by blast
qed

text \<open>
  The group \<^verbatim>\<open>/api\<close> with A and B and its child \<^verbatim>\<open>/users\<close>: after the parent adds
  X, the child adds C and the parent adds Y, the child has A, B, C and the parent
  A, B, X, Y.
\<close>

theorem C7_child_group_snapshot_witness:
  "elems (fst (runGroupOps env0 (fst usersGroup) (snd apiGroup) (snd usersGroup)
                 [ParentUse [tracing ''X''], ChildUse [tracing ''C''], ParentUse [tracing ''Y'']]))
         (middlewares (snd (snd (runGroupOps env0 (fst usersGroup) (snd apiGroup) (snd usersGroup)
                 [ParentUse [tracing ''X''], ChildUse [tracing ''C''], ParentUse [tracing ''Y'']]))))
     = [tracing ''A'', tracing ''B'', tracing ''C'']
   \<and> elems (fst (runGroupOps env0 (fst usersGroup) (snd apiGroup) (snd usersGroup)
                 [ParentUse [tracing ''X''], ChildUse [tracing ''C''], ParentUse [tracing ''Y'']]))
         (middlewares (fst (snd (runGroupOps env0 (fst usersGroup) (snd apiGroup) (snd usersGroup)
                 [ParentUse [tracing ''X''], ChildUse [tracing ''C''], ParentUse [tracing ''Y'']]))))
     = [tracing ''A'', tracing ''B'', tracing ''X'', tracing ''Y'']"
proof -
  have wf: "wf_slice (fst apiGroup) (middlewares (snd apiGroup))"
    by (simp add: apiGroup_eval wf_slice_def)
  have g: "Group_Group env0 (fst apiGroup) (snd apiGroup) ''/users'' = (fst usersGroup, snd usersGroup)"
    by (simp add: usersGroup_def)
  have r: "runGroupOps env0 (fst usersGroup) (snd apiGroup) (snd usersGroup)
                 [ParentUse [tracing ''X''], ChildUse [tracing ''C''], ParentUse [tracing ''Y'']]
      = (fst (runGroupOps env0 (fst usersGroup) (snd apiGroup) (snd usersGroup)
                 [ParentUse [tracing ''X''], ChildUse [tracing ''C''], ParentUse [tracing ''Y'']]),
         fst (snd (runGroupOps env0 (fst usersGroup) (snd apiGroup) (snd usersGroup)
                 [ParentUse [tracing ''X''], ChildUse [tracing ''C''], ParentUse [tracing ''Y'']])),
         snd (snd (runGroupOps env0 (fst usersGroup) (snd apiGroup) (snd usersGroup)
                 [ParentUse [tracing ''X''], ChildUse [tracing ''C''], ParentUse [tracing ''Y'']])))"
    by simp
  have e: "elems (fst apiGroup) (middlewares (snd apiGroup)) = [tracing ''A'', tracing ''B'']"
    by (simp add: apiGroup_eval elems_def)
  from C7_child_group_snapshot[OF wf g r] e show ?thesis by simp
qed

subsection \<open>The registration helpers\<close>

lemma runOptions_Method: "Method (snd (runOptions env h b optFn)) = Method b"
proof -
  have "\<And>p. Method (snd (foldl (applyOption env) p optFn)) = Method (snd p)"
  proof (induction optFn)
    case Nil show ?case by simp
  next
    case (Cons c cs)
    obtain h b where p: "p = (h, b)" by (cases p)
    have "Method (snd (applyOption env (h, b) c)) = Method b"
      by (cases c) (simp_all add: SetSummary_def SetDescription_def SetTags_def Use_def split: prod.splits)
    then show ?case using Cons.IH[of "applyOption env p c"] p by simp
  qed
  then show ?thesis by (simp add: runOptions_def)
qed

lemma RegisterEndpoint_Method:
  "RegisterEndpoint env h f r e = (h', f', route) \<Longrightarrow>
   Method route = Method e \<and> endpoints f' = endpoints f @ [route] \<and>
   fst (last (mux f')) = Method e @ '' '' @ getPrefix r @ RelativePath e"
  by (auto simp: RegisterEndpoint_def Let_def split: prod.splits)

lemma CreateEndpoint_Method:
  "CreateEndpoint env m path hnd Req Resp = Ok e \<Longrightarrow> Method e = m"
  by (auto simp: CreateEndpoint_def split: res.splits option.splits)

lemma registered_Method:
  assumes "CreateEndpoint env m path hnd Req Resp = Ok hRoute"
    and "RegisterEndpoint env (fst (runOptions env h hRoute optFn)) f r
              (snd (runOptions env h hRoute optFn)) = (h', f', route)"
  shows "Method route = m \<and> endpoints f' = endpoints f @ [route]"
  using RegisterEndpoint_Method[OF assms(2)] runOptions_Method[of env h hRoute optFn]
       CreateEndpoint_Method[OF assms(1)]
  by simp

lemma GET_registers_GET:
  assumes "GET env h f r path hnd Req Resp optFn = Ok (h', f', route)"
  shows "Method route = ''GET'' \<and> endpoints f' = endpoints f @ [route]"
proof -
  from assms obtain hRoute where "CreateEndpoint env ''GET'' path hnd Req Resp = Ok hRoute"
    and "RegisterEndpoint env (fst (runOptions env h hRoute optFn)) f r
              (snd (runOptions env h hRoute optFn)) = (h', f', route)"
    by (auto simp: GET_def split: res.splits prod.splits)
  then show ?thesis by (rule registered_Method)
qed

lemma POST_registers_POST:
  assumes "POST env h f r path hnd Req Resp optFn = Ok (h', f', route)"
  shows "Method route = ''POST'' \<and> endpoints f' = endpoints f @ [route]"
proof -
  from assms obtain hRoute where "CreateEndpoint env ''POST'' path hnd Req Resp = Ok hRoute"
    and "RegisterEndpoint env (fst (runOptions env h hRoute optFn)) f r
              (snd (runOptions env h hRoute optFn)) = (h', f', route)"
    by (auto simp: POST_def split: res.splits prod.splits)
  then show ?thesis by (rule registered_Method)
qed

lemma PUT_registers_PUT:
  assumes "PUT env h f r path hnd Req Resp optFn = Ok (h', f', route)"
  shows "Method route = ''PUT'' \<and> endpoints f' = endpoints f @ [route]"
proof -
  from assms obtain hRoute where "CreateEndpoint env ''PUT'' path hnd Req Resp = Ok hRoute"
    and "RegisterEndpoint env (fst (runOptions env h hRoute optFn)) f r
              (snd (runOptions env h hRoute optFn)) = (h', f', route)"
    by (auto simp: PUT_def split: res.splits prod.splits)
  then show ?thesis by (rule registered_Method)
qed

lemma DELETE_registers_DELETE:
  assumes "DELETE env h f r path hnd Req Resp optFn = Ok (h', f', route)"
  shows "Method route = ''DELETE'' \<and> endpoints f' = endpoints f @ [route]"
proof -
  from assms obtain hRoute where "CreateEndpoint env ''DELETE'' path hnd Req Resp = Ok hRoute"
    and "RegisterEndpoint env (fst (runOptions env h hRoute optFn)) f r
              (snd (runOptions env h hRoute optFn)) = (h', f', route)"
    by (auto simp: DELETE_def split: res.splits prod.splits)
  then show ?thesis by (rule registered_Method)
qed

lemma PATCH_registers_PATH:
  assumes "PATCH env h f r path hnd Req Resp optFn = Ok (h', f', route)"
  shows "Method route = ''PATH'' \<and> endpoints f' = endpoints f @ [route]"
proof -
  from assms obtain hRoute where "CreateEndpoint env ''PATH'' path hnd Req Resp = Ok hRoute"
    and "RegisterEndpoint env (fst (runOptions env h hRoute optFn)) f r
              (snd (runOptions env h hRoute optFn)) = (h', f', route)"
    by (auto simp: PATCH_def split: res.splits prod.splits)
  then show ?thesis by (rule registered_Method)
qed

text \<open>
  Claim C10. Each registration helper registers an endpoint whose method is the
  helper's name. \<^verbatim>\<open>GET\<close>, \<^verbatim>\<open>POST\<close>, \<^verbatim>\<open>PUT\<close> and \<^verbatim>\<open>DELETE\<close> do (the four lemmas
  above); \<^verbatim>\<open>PATCH\<close> registers the method \<^verbatim>\<open>PATH\<close>: here for the path
  \<^verbatim>\<open>/users/{id}\<close> on a new framework, where the endpoint record and the pattern
  given to the multiplexer both carry \<^verbatim>\<open>PATH\<close>.
\<close>

theorem C10_PATCH_registers_PATH:
  "(case PATCH env0 heap0 (New noValidation) FrameworkRouter ''/users/{id}''
           (\<lambda>req. Inr (VString ''patched'')) NoRequest stringType [] of
      Ok (h', f', route) \<Rightarrow> (Method route, map Method (endpoints f'), map fst (mux f'))
    | Failed e \<Rightarrow> ([], [], [])
    | Panicked p \<Rightarrow> ([], [], []))
   = (''PATH'', [''PATH''], [''PATH /users/{id}''])"
  by (simp add: PATCH_def CreateEndpoint_def TypeOf_def buildRequestParser_def NoRequest_def
      structOf_def runOptions_def RegisterEndpoint_def go_append_def elems_def nil_slice_def heap0_def env0_def
      New_def Let_def)

subsection \<open>Unfolding the walker, the executor and the handler on the examples\<close>

lemmas plan_defs = buildRequestParser_def structOf_def IsExported_def parseNestedStruct_def
  parseNestedStructForForm_def jsonTagOrName_def Tag_Get_def Tag_Lookup_def stringType_def
  intType_def boolType_def sliceOf_def Elem_def APIKeyHeader_def UserIDRoute_def Let_def

lemmas exec_defs = parseWithPlan_def validateRequest_def parseField_def fieldOf_def getField_def storeField_def
  setField_def queryRequest_def bodyRequest_def request0_def Query_Get_def createFieldSetter_def
  SetString_def SetInt_def SetBool_def scan_defs noValidation_def env0_def FileFieldType_def
  quoted_def

lemmas handler_defs = createTypeSafeHandler_def world0_def writeResponse_def any_def
  writeDefault_def writeError_def Write_def WriteHeader_def Header_Set_def StatusOK_def
  StatusBadRequest_def StatusResponse_def

lemmas decode_defs = parseBody_def FieldAt_def findField_def jsonVisible_def jsonFieldName_def
  jsonInt_def kindBits_def typeError_def asciiLower_def newUser_def

subsection \<open>The executor\<close>


lemma fieldOf_storeField:
  assumes "fieldOf v fp = Ok old"
  shows "fieldOf (storeField v fp x) fp = Ok x"
proof (cases "isNested fp")
  case True
  with assms obtain parent where p: "getField v (fieldIndex fp) = Ok parent"
    and n: "getField parent (nestedFieldIndex fp) = Ok old"
    by (auto simp: fieldOf_def split: res.splits)
  from p obtain vs where v: "v = VStruct vs" "fieldIndex fp < length vs" "parent = vs ! fieldIndex fp"
    by (auto simp: getField_def split: goval.splits if_splits)
  from n obtain ws where w: "parent = VStruct ws" "nestedFieldIndex fp < length ws"
    by (auto simp: getField_def split: goval.splits if_splits)
  from v(3) w(1) have eq: "vs ! fieldIndex fp = VStruct ws" by simp
  show ?thesis using True v(1,2) w(2) eq
    by (simp add: storeField_def setField_def fieldOf_def getField_def)
next
  case False
  with assms obtain vs where "v = VStruct vs" "fieldIndex fp < length vs"
    by (auto simp: fieldOf_def getField_def split: goval.splits if_splits)
  with False show ?thesis by (simp add: storeField_def setField_def fieldOf_def getField_def)
qed

lemma setElems_all_ok:
  assumes "\<forall>val \<in> set vals. \<exists>v. set' ek val = Ok v"
  shows "\<exists>vs. setElems set' ek i vals = Ok vs \<and> length vs = length vals
            \<and> (\<forall>j < length vals. set' ek (vals ! j) = Ok (vs ! j))"
  using assms
proof (induction vals arbitrary: i)
  case Nil
  show ?case by simp
next
  case (Cons val rest)
  from Cons.prems obtain v where v: "set' ek val = Ok v" by auto
  from Cons.IH[of "Suc i"] Cons.prems obtain vs where
    vs: "setElems set' ek (Suc i) rest = Ok vs" "length vs = length rest"
        "\<forall>j < length rest. set' ek (rest ! j) = Ok (vs ! j)"
    by auto
  have "\<forall>j < length (val # rest). set' ek ((val # rest) ! j) = Ok ((v # vs) ! j)"
  proof (intro allI impI)
    fix j assume "j < length (val # rest)"
    then show "set' ek ((val # rest) ! j) = Ok ((v # vs) ! j)"
      using v vs(3) by (cases j) simp_all
  qed
  with v vs(1,2) show ?case by simp
qed

lemma setElems_some_failed:
  assumes "\<exists>val \<in> set vals. \<exists>err. set' ek val = Failed err"
    and "\<forall>val \<in> set vals. \<forall>p. set' ek val \<noteq> Panicked p"
  shows "\<exists>m. setElems set' ek i vals = Failed (Err m)"
  using assms
proof (induction vals arbitrary: i)
  case Nil
  then show ?case by simp
next
  case (Cons val rest)
  show ?case
  proof (cases "set' ek val")
    case (Failed err)
    then show ?thesis by simp
  next
    case (Panicked p)
    with Cons.prems(2) show ?thesis by simp
  next
    case (Ok v)
    with Cons.prems(1) have "\<exists>val \<in> set rest. \<exists>err. set' ek val = Failed err" by auto
    from Cons.IH[OF this, of "Suc i"] Cons.prems(2)
    obtain m where "setElems set' ek (Suc i) rest = Failed (Err m)" by auto
    with Ok show ?thesis by simp
  qed
qed

lemma parseFields_append:
  "parseFields r v (pre @ post) =
     (case parseFields r v pre of
        Ok v' \<Rightarrow> parseFields r v' post
      | Failed e \<Rightarrow> Failed e
      | Panicked p \<Rightarrow> Panicked p)"
  by (induction pre arbitrary: v) (auto split: res.splits)

lemma parseWithPlan_binding_failure:
  assumes "fieldParsers parser = pre @ fp # post" and "parseFields r v0 pre = Ok reqValue"
    and "parseField r reqValue fp = Failed e"
  shows "parseWithPlan validate pf r v0 parser = (Failed e, [])"
  using assms by (simp add: parseWithPlan_def parseFields_append)

lemma parse_failure_skips_handler:
  assumes "parseWithPlan validate (parseFloat env) r (zero_val (requestType parser)) parser
             = (Failed (Err m), evs)"
  shows "createTypeSafeHandler env validate hnd parser Resp r w
           = w\<lparr> log := log w @ evs, writer := writeError (writer w) StatusBadRequest m None \<rparr>"
  using assms by (simp add: createTypeSafeHandler_def)

text \<open>
  Claim C4. For a slice-typed query binding (as the walker compiles it: the field is
  of a slice type and the setter is the converter of the element kind), with the values \<open>vals\<close> the request sends
  for its key: when there is none, the request value is left as it is and there is no
  error; when there are K \<open>\<ge> 1\<close> and each converts, the field becomes a slice of
  exactly K elements, the i-th being the converter's result on the i-th value; when
  some value fails to convert, the binding fails, and with it the whole parse of any
  plan that reaches the binding, before the validator runs.
\<close>

theorem C4_slice_query_binding:
  assumes "isSlice fp" and "sourceType fp = ''query''"
    and "Kind (fieldType fp) = KSlice" and "ElemT (fieldType fp) = Some e"
    and "setter fp = Some (createFieldSetter sf (Kind e))"
    and "fieldOf reqValue fp = Ok old"
    and "Query r (sourceName fp) = vals"
  shows "(vals = [] \<longrightarrow> parseField r reqValue fp = Ok reqValue)
       \<and> (vals \<noteq> [] \<longrightarrow>
            (\<forall>val \<in> set vals. \<exists>v. createFieldSetter sf (Kind e) (Kind e) val = Ok v) \<longrightarrow>
            (\<exists>vs. parseField r reqValue fp = Ok (storeField reqValue fp (VSlice (Some vs)))
                \<and> fieldOf (storeField reqValue fp (VSlice (Some vs))) fp = Ok (VSlice (Some vs))
                \<and> length vs = length vals
                \<and> (\<forall>i < length vals.
                      createFieldSetter sf (Kind e) (Kind e) (vals ! i) = Ok (vs ! i))))
       \<and> ((\<exists>val \<in> set vals. \<exists>err. createFieldSetter sf (Kind e) (Kind e) val = Failed err) \<longrightarrow>
            (\<exists>m. parseField r reqValue fp = Failed (Err m)
               \<and> (\<forall>validate pf parser pre post v0.
                     fieldParsers parser = pre @ fp # post \<longrightarrow>
                     parseFields r v0 pre = Ok reqValue \<longrightarrow>
                     parseWithPlan validate pf r v0 parser = (Failed (Err m), []))))"
proof (intro conjI impI)
  assume "vals = []"
  with assms show "parseField r reqValue fp = Ok reqValue"
    by (simp add: parseField_def)
next
  assume ne: "vals \<noteq> []"
    and ok: "\<forall>val \<in> set vals. \<exists>v. createFieldSetter sf (Kind e) (Kind e) val = Ok v"
  from setElems_all_ok[where set'="createFieldSetter sf (Kind e)" and ek="Kind e" and i=0, OF ok] obtain vs where
    vs: "setElems (createFieldSetter sf (Kind e)) (Kind e) 0 vals = Ok vs"
        "length vs = length vals"
        "\<forall>j < length vals. createFieldSetter sf (Kind e) (Kind e) (vals ! j) = Ok (vs ! j)"
    by auto
  from vs(1) assms(3,4,5) have "setSliceField (fieldType fp) vals (setter fp) = Ok (VSlice (Some vs))"
    by (simp add: setSliceField_def Elem_def)
  with assms ne have "parseField r reqValue fp = Ok (storeField reqValue fp (VSlice (Some vs)))"
    by (simp add: parseField_def)
  with vs(2,3) fieldOf_storeField[OF assms(6)]
  show "\<exists>vs. parseField r reqValue fp = Ok (storeField reqValue fp (VSlice (Some vs)))
                \<and> fieldOf (storeField reqValue fp (VSlice (Some vs))) fp = Ok (VSlice (Some vs))
                \<and> length vs = length vals
                \<and> (\<forall>i < length vals.
                      createFieldSetter sf (Kind e) (Kind e) (vals ! i) = Ok (vs ! i))"
    by blast
next
  assume bad: "\<exists>val \<in> set vals. \<exists>err. createFieldSetter sf (Kind e) (Kind e) val = Failed err"
  then have ne: "vals \<noteq> []" by auto
  have np: "\<forall>val \<in> set vals. \<forall>p. createFieldSetter sf (Kind e) (Kind e) val \<noteq> Panicked p"
    by (simp add: createFieldSetter_no_panic)
  from setElems_some_failed[where set'="createFieldSetter sf (Kind e)" and ek="Kind e" and i=0, OF bad np] obtain m where
    "setElems (createFieldSetter sf (Kind e)) (Kind e) 0 vals = Failed (Err m)" by auto
  with assms(3,4,5) have "setSliceField (fieldType fp) vals (setter fp) = Failed (Err m)"
    by (simp add: setSliceField_def Elem_def)
  with assms ne have f: "parseField r reqValue fp =
      Failed (Err (sourceType fp @ '' '' @ quoted (sourceName fp) @ '': '' @ m))"
    by (simp add: parseField_def)
  show "\<exists>m. parseField r reqValue fp = Failed (Err m)
               \<and> (\<forall>validate pf parser pre post v0.
                     fieldParsers parser = pre @ fp # post \<longrightarrow>
                     parseFields r v0 pre = Ok reqValue \<longrightarrow>
                     parseWithPlan validate pf r v0 parser = (Failed (Err m), []))"
    using f parseWithPlan_binding_failure[OF _ _ f] by blast
qed

lemma FilterRequest_plan:
  "buildRequestParser (scanFloat env0) FilterRequest =
     Ok \<lparr> requestType = FilterRequest, fieldParsers = [idsBinding], hasBodyField = False,
          bodyFieldIdx = 0 \<rparr>"
  by (simp add: buildRequestParser_def FilterRequest_def structOf_def IsExported_def
      parseNestedStruct_def jsonTagOrName_def Tag_Get_def Tag_Lookup_def sliceOf_def intType_def
      Elem_def idsBinding_def)

text \<open>
  \<^verbatim>\<open>?id=1&id=22&id=333\<close> against \<^verbatim>\<open>IDs []int\<close> gives the three integers in order; no
  \<^verbatim>\<open>id\<close> leaves the nil slice; \<^verbatim>\<open>?id=1&id=x&id=333\<close> fails.
\<close>

theorem C4_slice_query_binding_witness:
  "(\<exists>vs. parseField (queryRequest ''id'' [''1'', ''22'', ''333'']) (zero_val FilterRequest) idsBinding
            = Ok (storeField (zero_val FilterRequest) idsBinding (VSlice (Some vs)))
         \<and> length vs = 3)
   \<and> parseField (queryRequest ''id'' [''1'', ''22'', ''333'']) (zero_val FilterRequest) idsBinding
       = Ok (VStruct [VStruct [VSlice (Some [VInt 1, VInt 22, VInt 333])]])
   \<and> parseField (queryRequest ''id'' []) (zero_val FilterRequest) idsBinding
       = Ok (VStruct [VStruct [VSlice None]])
   \<and> (\<exists>m. parseField (queryRequest ''id'' [''1'', ''x'', ''333'']) (zero_val FilterRequest) idsBinding
            = Failed (Err m))"
proof -
  have b: "isSlice idsBinding" "sourceType idsBinding = ''query''"
    "Kind (fieldType idsBinding) = KSlice" "ElemT (fieldType idsBinding) = Some intType"
    "setter idsBinding = Some (createFieldSetter (scanFloat env0) (Kind intType))"
    by (simp_all add: idsBinding_def sliceOf_def intType_def)
  have z: "zero_val FilterRequest = VStruct [VStruct [VSlice None]]"
    by (simp add: FilterRequest_def structOf_def sliceOf_def intType_def FileFieldType_def)
  have f: "fieldOf (zero_val FilterRequest) idsBinding = Ok (VSlice None)"
    by (simp add: z fieldOf_def getField_def idsBinding_def)
  have q3: "Query (queryRequest ''id'' [''1'', ''22'', ''333'']) (sourceName idsBinding) = [''1'', ''22'', ''333'']"
    and q0: "Query (queryRequest ''id'' []) (sourceName idsBinding) = []"
    and qx: "Query (queryRequest ''id'' [''1'', ''x'', ''333'']) (sourceName idsBinding) = [''1'', ''x'', ''333'']"
    by (simp_all add: queryRequest_def request0_def idsBinding_def)
  have c1: "createFieldSetter (scanFloat env0) (Kind intType) (Kind intType) ''1'' = Ok (VInt 1)"
    and c22: "createFieldSetter (scanFloat env0) (Kind intType) (Kind intType) ''22'' = Ok (VInt 22)"
    and c333: "createFieldSetter (scanFloat env0) (Kind intType) (Kind intType) ''333'' = Ok (VInt 333)"
    and cx: "createFieldSetter (scanFloat env0) (Kind intType) (Kind intType) ''x''
               = Failed (Err ''invalid integer value'')"
    by (simp_all add: createFieldSetter_def intType_def scan_defs SetInt_def)
  note t3 = C4_slice_query_binding[OF b f q3]
  note t0 = C4_slice_query_binding[OF b f q0]
  note tx = C4_slice_query_binding[OF b f qx]
  from t3 c1 c22 c333
  obtain vs where vs: "parseField (queryRequest ''id'' [''1'', ''22'', ''333'']) (zero_val FilterRequest) idsBinding
            = Ok (storeField (zero_val FilterRequest) idsBinding (VSlice (Some vs)))"
      "length vs = 3"
    by auto
  have e3: "parseField (queryRequest ''id'' [''1'', ''22'', ''333'']) (zero_val FilterRequest) idsBinding
       = Ok (VStruct [VStruct [VSlice (Some [VInt 1, VInt 22, VInt 333])]])"
    using c1 c22 c333
    by (simp add: z parseField_def fieldOf_def getField_def idsBinding_def queryRequest_def
        request0_def setSliceField_def Elem_def sliceOf_def intType_def storeField_def
        setField_def)
  from t0 have e0: "parseField (queryRequest ''id'' []) (zero_val FilterRequest) idsBinding
       = Ok (VStruct [VStruct [VSlice None]])"
    by (simp add: z)
  from tx cx have ex: "\<exists>m. parseField (queryRequest ''id'' [''1'', ''x'', ''333'']) (zero_val FilterRequest) idsBinding
            = Failed (Err m)"
    by auto
  from vs(1,2) e3 e0 ex show ?thesis by blast
qed


lemma validateRequest_violations:
  assumes "validate (requestType parser) v = Some (ValidationErrors es)"
    and "formatValidationError (ValidationErrors es) parser = Ok (Some ves)"
  shows "validateRequest validate parser v = (Failed (ValidationErrorWrapper ves), [ValidatorRun])"
  using assms by (simp add: validateRequest_def)

lemma validateRequest_accepts:
  assumes "validate (requestType parser) v = None"
  shows "validateRequest validate parser v = (Ok v, [ValidatorRun])"
  using assms by (simp add: validateRequest_def)

lemma UploadAvatarRequest_plan:
  "buildRequestParser (scanFloat env0) UploadAvatarRequest = Ok uploadPlan"
  by (simp add: buildRequestParser_def UploadAvatarRequest_def structOf_def IsExported_def
      parseNestedStruct_def parseNestedStructForForm_def jsonTagOrName_def Tag_Get_def
      Tag_Lookup_def stringType_def UserIDRoute_def APIKeyHeader_def FileFieldType_def
      uploadPlan_def avatarBinding_def)




text \<open>
  What the validation step returns for that request value: when the validator reports
  the violation of \<^verbatim>\<open>required\<close> for \<^verbatim>\<open>Form.Avatar\<close>, the failure names the field
  \<^verbatim>\<open>avatar\<close> of source \<^verbatim>\<open>form\<close>; when it reports nothing, the request value with the
  empty file is handed on.
\<close>

lemma avatar_required_is_reported:
  assumes "validate UploadAvatarRequest uploadBound = Some (ValidationErrors [avatarRequired])"
  shows "validateRequest validate uploadPlan uploadBound
           = (Failed (ValidationErrorWrapper
                [\<lparr> Field' = ''avatar'', SourceType = ''form'',
                   Errors = [''failed validation: required''] \<rparr>]),
              [ValidatorRun])"
proof -
  have "formatValidationError (ValidationErrors [avatarRequired]) uploadPlan
      = Ok (Some [\<lparr> Field' = ''avatar'', SourceType = ''form'',
              Errors = [''failed validation: required''] \<rparr>])"
    by (simp add: formatValidationError_def uploadPlan_def avatarBinding_def FieldAt_def
        UploadAvatarRequest_def structOf_def UserIDRoute_def APIKeyHeader_def classify_def
        splitFieldPath_def Let_def avatarRequired_def)
  with assms show ?thesis
    by (simp add: validateRequest_violations uploadPlan_def)
qed

lemma avatar_not_reported:
  assumes "validate UploadAvatarRequest uploadBound = None"
  shows "validateRequest validate uploadPlan uploadBound = (Ok uploadBound, [ValidatorRun])"
  using assms by (simp add: validateRequest_accepts uploadPlan_def)

subsection \<open>Conversion failures\<close>

lemma scalar_integer_binding_rejects:
  assumes "\<not> isSlice fp" and "sourceType fp \<in> {''header'', ''route'', ''query''}"
    and "Kind (fieldType fp) \<in> signedKinds \<union> unsignedKinds"
    and "setter fp = Some (createFieldSetter sf (Kind (fieldType fp)))"
    and "fieldOf reqValue fp = Ok old"
    and "(if sourceType fp = ''header'' then Header r (sourceName fp)
          else if sourceType fp = ''route'' then PathValue r (sourceName fp)
          else Query_Get r (sourceName fp)) = v"
    and "v \<noteq> []" and "scanRejects (Kind (fieldType fp)) v"
  shows "parseField r reqValue fp
           = Failed (Err (sourceType fp @ '' '' @ quoted (sourceName fp) @ '': ''
                          @ conversionReason (Kind (fieldType fp))))"
proof -
  from assms(3,8) have c: "createFieldSetter sf (Kind (fieldType fp)) (Kind (fieldType fp)) v
      = Failed (Err (conversionReason (Kind (fieldType fp))))"
    by (auto simp: createFieldSetter_def scanRejects_def conversionReason_def signedKinds_def
        unsignedKinds_def)
  from assms(2) have nf: "sourceType fp \<noteq> ''form''" by auto
  from assms(2,6) have v: "(if sourceType fp = ''header'' then Header r (sourceName fp)
          else if sourceType fp = ''route'' then PathValue r (sourceName fp)
          else if sourceType fp = ''query'' then Query_Get r (sourceName fp) else []) = v"
    by auto
  show ?thesis
    unfolding parseField_def using assms(1,2,4,5,7) nf c
    by (simp add: v Let_def del: insert_iff)
qed

text \<open>
  A scalar route, header or query binding of an integer kind, signed or unsigned, with
  \<open>v\<close> the value the request has for its name: an empty \<open>v\<close> counts as absent; a
  non-empty \<open>v\<close> that the scan of the kind rejects makes the binding fail with
  \<^verbatim>\<open><category> '<name>': <reason>\<close>, the parse of any plan that reaches the binding
  returns that error with no run of the validator, and the HTTP handler answers 400
  and runs neither validator nor handler. The scan rejects every text whose first
  character is neither a blank, a sign nor a digit, such as \<^verbatim>\<open>abc\<close>.
\<close>

lemma integer_binding_failure_aborts:
  assumes "\<not> isSlice fp" and "sourceType fp \<in> {''header'', ''route'', ''query''}"
    and "Kind (fieldType fp) \<in> signedKinds \<union> unsignedKinds"
    and "setter fp = Some (createFieldSetter sf (Kind (fieldType fp)))"
    and "fieldOf reqValue fp = Ok old"
    and "(if sourceType fp = ''header'' then Header r (sourceName fp)
          else if sourceType fp = ''route'' then PathValue r (sourceName fp)
          else Query_Get r (sourceName fp)) = v"
  shows "(v = [] \<longrightarrow> parseField r reqValue fp = Ok reqValue)
       \<and> (v \<noteq> [] \<longrightarrow> scanRejects (Kind (fieldType fp)) v \<longrightarrow>
            parseField r reqValue fp
              = Failed (Err (sourceType fp @ '' '' @ quoted (sourceName fp) @ '': ''
                             @ conversionReason (Kind (fieldType fp))))
            \<and> (\<forall>validate pf parser pre post v0.
                  fieldParsers parser = pre @ fp # post \<longrightarrow>
                  parseFields r v0 pre = Ok reqValue \<longrightarrow>
                  parseWithPlan validate pf r v0 parser
                    = (Failed (Err (sourceType fp @ '' '' @ quoted (sourceName fp) @ '': ''
                                    @ conversionReason (Kind (fieldType fp)))), []))
            \<and> (\<forall>env validate hnd parser Resp pre post w.
                  fieldParsers parser = pre @ fp # post \<longrightarrow>
                  parseFields r (zero_val (requestType parser)) pre = Ok reqValue \<longrightarrow>
                  createTypeSafeHandler env validate hnd parser Resp r w
                    = w\<lparr> writer := writeError (writer w) StatusBadRequest
                           (sourceType fp @ '' '' @ quoted (sourceName fp) @ '': ''
                            @ conversionReason (Kind (fieldType fp))) None \<rparr>))
       \<and> (\<forall>c cs. v = c # cs \<longrightarrow> spaceWidth v = 0 \<longrightarrow> c \<noteq> CHR ''+'' \<longrightarrow> c \<noteq> CHR ''-'' \<longrightarrow>
            \<not> isDigit c \<longrightarrow> scanRejects (Kind (fieldType fp)) v)"
proof (intro conjI impI allI)
  assume e: "v = []"
  from assms(2) have nf: "sourceType fp \<noteq> ''form''" by auto
  from assms(2,6) e have "(if sourceType fp = ''header'' then Header r (sourceName fp)
          else if sourceType fp = ''route'' then PathValue r (sourceName fp)
          else if sourceType fp = ''query'' then Query_Get r (sourceName fp) else []) = []"
    by auto
  then show "parseField r reqValue fp = Ok reqValue"
    unfolding parseField_def using assms(1,5) nf by (simp add: Let_def del: insert_iff)
next
  assume n: "v \<noteq> []" "scanRejects (Kind (fieldType fp)) v"
  from scalar_integer_binding_rejects[OF assms n]
  show f: "parseField r reqValue fp
              = Failed (Err (sourceType fp @ '' '' @ quoted (sourceName fp) @ '': ''
                             @ conversionReason (Kind (fieldType fp))))" .
  {
    fix validate :: validator and pf and parser :: requestParser and pre post v0
    assume "fieldParsers parser = pre @ fp # post" "parseFields r v0 pre = Ok reqValue"
    from parseWithPlan_binding_failure[OF this f]
    show "parseWithPlan validate pf r v0 parser
            = (Failed (Err (sourceType fp @ '' '' @ quoted (sourceName fp) @ '': ''
                            @ conversionReason (Kind (fieldType fp)))), [])" .
  }
  {
    fix env :: Env and validate :: validator and hnd and parser :: requestParser
      and Resp pre post and w :: World
    assume "fieldParsers parser = pre @ fp # post"
      "parseFields r (zero_val (requestType parser)) pre = Ok reqValue"
    from parseWithPlan_binding_failure[OF this f]
    have "parseWithPlan validate (parseFloat env) r (zero_val (requestType parser)) parser
            = (Failed (Err (sourceType fp @ '' '' @ quoted (sourceName fp) @ '': ''
                            @ conversionReason (Kind (fieldType fp)))), [])" .
    from parse_failure_skips_handler[OF this]
    show "createTypeSafeHandler env validate hnd parser Resp r w
            = w\<lparr> writer := writeError (writer w) StatusBadRequest
                   (sourceType fp @ '' '' @ quoted (sourceName fp) @ '': ''
                    @ conversionReason (Kind (fieldType fp))) None \<rparr>"
      by simp
  }
next
  fix c cs
  assume "v = c # cs" "spaceWidth v = 0" "c \<noteq> CHR ''+''" "c \<noteq> CHR ''-''" "\<not> isDigit c"
  then show "scanRejects (Kind (fieldType fp)) v" by (simp add: scan_rejects_no_number)
qed

lemma scan_numeric_prefix:
  "scanInt ''12abc'' = Some 12" "scanInt ''12.5'' = Some 12" "scanInt ''1e3'' = Some 1"
  "scanUint ''12abc'' = Some 12"
  by (simp_all add: scan_defs)

text \<open>
  Claim C6. For an integer-kind scalar binding, an input value that is not a decimal
  integer aborts the parse with the error \<^verbatim>\<open><category> '<name>': <reason>\<close>, and the
  validation collaborator is not run. The converter means to reject such a value
  (its error is \<^verbatim>\<open>invalid integer value\<close>), and does so for \<^verbatim>\<open>abc\<close>
  (\<open>integer_binding_failure_aborts\<close>, \<open>page_abc_is_rejected\<close>); but it converts
  with \<^verbatim>\<open>fmt.Sscanf(value, "%d", &v)\<close>, which reads the longest run of digits and
  leaves the rest of the text unread. For the binding of \<^verbatim>\<open>Page int\<close> in
  \<^verbatim>\<open>ListUsersRequest\<close>, the request \<^verbatim>\<open>?page=12abc\<close>, whose value is not a decimal
  integer, is bound as 12: there is no error, the validator and the handler run and
  the answer is 200.
\<close>

theorem C6_numeric_prefix_is_accepted:
  "\<exists>parser. buildRequestParser (scanFloat env0) ListUsersRequest = Ok parser
     \<and> pageBinding \<in> set (fieldParsers parser)
     \<and> parseWithPlan noValidation (parseFloat env0) (queryRequest ''page'' [''12abc''])
          (zero_val ListUsersRequest) parser
        = (Ok (VStruct [VStruct [VString []],
                        VStruct [VInt 12, VInt 0, VString [], VString [], VSlice None]]),
           [ValidatorRun])
     \<and> log (createTypeSafeHandler env0 noValidation (\<lambda>req. Inr (VString ''ok'')) parser stringType
               (queryRequest ''page'' [''12abc'']) world0)
        = [ValidatorRun, HandlerRun]
     \<and> statusCode (writer (createTypeSafeHandler env0 noValidation (\<lambda>req. Inr (VString ''ok''))
               parser stringType (queryRequest ''page'' [''12abc'']) world0)) = Some 200"
  by (simp add: ListUsersRequest_def plan_defs exec_defs handler_defs pageBinding_def)

text \<open>\<^verbatim>\<open>?page=abc\<close> through the whole plan and the handler of the endpoint.\<close>


lemma page_abc_is_rejected:
  "\<exists>parser. buildRequestParser (scanFloat env0) ListUsersRequest = Ok parser
     \<and> parseWithPlan noValidation (parseFloat env0) (queryRequest ''page'' [''abc''])
          (zero_val ListUsersRequest) parser
        = (Failed (Err (''query '' @ quoted ''page'' @ '': invalid integer value'')), [])
     \<and> log (createTypeSafeHandler env0 noValidation (\<lambda>req. Inr (VString ''ok'')) parser stringType
               (queryRequest ''page'' [''abc'']) world0) = []
     \<and> statusCode (writer (createTypeSafeHandler env0 noValidation (\<lambda>req. Inr (VString ''ok''))
               parser stringType (queryRequest ''page'' [''abc'']) world0)) = Some 400"
  by (simp add: ListUsersRequest_def plan_defs exec_defs handler_defs)

subsection \<open>The body\<close>

lemma deref_no_pointer: "Kind t \<noteq> KPointer \<Longrightarrow> deref t cur = (t, cur)"
  by (cases t) simp

lemma rewrap_no_pointer: "Kind t \<noteq> KPointer \<Longrightarrow> rewrap t v = v"
  by (cases t) simp

lemma decodeMembers_unknown_key:
  assumes "key \<in> fst ` set kvs" and "findField fs key = None"
  shows "\<exists>m. decodeMembers pf fs vs kvs = Inl m"
  using assms
proof (induction kvs arbitrary: vs)
  case Nil
  then show ?case by simp
next
  case (Cons kv kvs)
  obtain k j where kv: "kv = (k, j)" by (cases kv)
  show ?case
  proof (cases "findField fs k")
    case None
    with kv show ?thesis by simp
  next
    case (Some x)
    obtain i f where x: "x = (i, f)" by (cases x)
    from Some Cons.prems(2) have "k \<noteq> key" by auto
    with Cons.prems(1) kv have "key \<in> fst ` set kvs" by auto
    from Cons.IH[OF this Cons.prems(2)] have r: "\<And>vs. \<exists>m. decodeMembers pf fs vs kvs = Inl m" .
    show ?thesis
    proof (cases "decodeValue pf (fType f) (vs ! i) j")
      case (Inl m)
      with kv Some x show ?thesis by simp
    next
      case (Inr v)
      with kv Some x r[of "vs[i := v]"] show ?thesis by simp
    qed
  qed
qed

lemma body_with_unknown_property_rejected:
  assumes "Body r = Some stream" and "firstValue stream = Inr (JObject kvs)"
    and "IsExported field" and "Kind (fType field) = KStruct"
    and "key \<in> fst ` set kvs" and "findField (Fields (fType field)) key = None"
  shows "\<exists>m. parseBody pf r field = Failed (Err (''invalid JSON: '' @ m))"
proof -
  from assms(4) have d: "deref (fType field) (zero_val (fType field))
      = (fType field, zero_val (fType field))"
    by (simp add: deref_no_pointer)
  define vs where "vs = (case zero_val (fType field) of
             VStruct vs \<Rightarrow>
               if length vs = length (Fields (fType field)) then vs
               else zero_fields (Fields (fType field))
             | _ \<Rightarrow> zero_fields (Fields (fType field)))"
  from decodeMembers_unknown_key[OF assms(5,6), of pf vs]
  obtain m where "decodeMembers pf (Fields (fType field)) vs kvs = Inl m" by blast
  then have "decodeValue pf (fType field) (zero_val (fType field)) (JObject kvs) = Inl m"
    using assms(4) by (simp add: d Let_def vs_def)
  with assms(1,2,3) show ?thesis by (simp add: parseBody_def)
qed

lemma malformed_body_rejected:
  assumes "Body r = Some stream" and "firstValue stream = Inl err" and "IsExported field"
  shows "parseBody pf r field = Failed (Err (''invalid JSON: '' @ err))"
  using assms by (simp add: parseBody_def)

lemma body_failure_aborts:
  assumes "parseFields r v0 (fieldParsers parser) = Ok v1" and "hasBodyField parser"
    and "getField v1 (bodyFieldIdx parser) = Ok b"
    and "FieldAt (requestType parser) (bodyFieldIdx parser) = Ok field"
    and "parseBody pf r field = Failed err"
  shows "parseWithPlan validate pf r v0 parser = (Failed (Err (''body: '' @ Error err)), [])"
  using assms by (simp add: parseWithPlan_def)

text \<open>
  Claim C8. The body is decoded strictly: an undeclared property and malformed input
  are rejected and the handler is not invoked. An undeclared property is rejected
  (\<open>body_with_unknown_property_rejected\<close>, \<open>undeclared_property_is_rejected\<close>) and so is a
  first value that is not JSON (\<open>malformed_body_rejected\<close>), and then the handler is
  not run (\<open>body_failure_aborts\<close>, \<open>parse_failure_skips_handler\<close>). But only the first
  JSON value of the body is read: for \<^verbatim>\<open>CreateUserRequest\<close>, a body that holds a
  well-formed user object followed by \<^verbatim>\<open>}} not json\<close> is not a JSON document, yet it
  is decoded, validated and handed to the handler, which answers 200.
\<close>

theorem C8_trailing_data_is_accepted:
  "\<exists>parser. buildRequestParser (scanFloat env0) CreateUserRequest = Ok parser
     \<and> parseWithPlan noValidation (parseFloat env0) (bodyRequest newUser ''}} not json'')
          (zero_val CreateUserRequest) parser
        = (Ok (VStruct [VStruct [VString [], VString []],
                        VStruct [VString ''Ann'', VString ''ann@example.org'', VInt 30]]),
           [ValidatorRun])
     \<and> log (createTypeSafeHandler env0 noValidation (\<lambda>req. Inr (VString ''created'')) parser
               stringType (bodyRequest newUser ''}} not json'') world0)
        = [ValidatorRun, HandlerRun]
     \<and> statusCode (writer (createTypeSafeHandler env0 noValidation (\<lambda>req. Inr (VString ''created''))
               parser stringType (bodyRequest newUser ''}} not json'') world0)) = Some 200"
  by (simp add: CreateUserRequest_def plan_defs exec_defs handler_defs decode_defs)

text \<open>
  The same body in a request that carries the two headers of the shape: the parse
  gives the request value with the headers and the user, and the validator is run on
  it.
\<close>

lemma trailing_data_is_accepted_with_headers:
  "\<exists>parser. buildRequestParser (scanFloat env0) CreateUserRequest = Ok parser
     \<and> (\<forall>validate.
           parseWithPlan validate (parseFloat env0) (createUserRequest newUser ''}} not json'')
             (zero_val CreateUserRequest) parser
           = validateRequest validate parser
               (VStruct [VStruct [VString ''secret-key'', VString ''application/json''],
                         VStruct [VString ''Ann'', VString ''ann@example.org'', VInt 30]]))"
  by (simp add: CreateUserRequest_def plan_defs parseWithPlan_def parseField_def fieldOf_def
      getField_def storeField_def setField_def createUserRequest_def request0_def
      createFieldSetter_def SetString_def SetInt_def scan_defs env0_def FileFieldType_def
      decode_defs)

text \<open>The body \<^verbatim>\<open>{"name":"Ann","admin":true}\<close>, for comparison.\<close>

lemma undeclared_property_is_rejected:
  "\<exists>parser. buildRequestParser (scanFloat env0) CreateUserRequest = Ok parser
     \<and> parseWithPlan noValidation (parseFloat env0)
          (bodyRequest (JObject [(''name'', JString ''Ann''), (''admin'', JBool True)]) [])
          (zero_val CreateUserRequest) parser
        = (Failed (Err (''body: invalid JSON: json: unknown field '' @ [CHR 0x22] @ ''admin''
                        @ [CHR 0x22])), [])
     \<and> log (createTypeSafeHandler env0 noValidation (\<lambda>req. Inr (VString ''created'')) parser
               stringType
               (bodyRequest (JObject [(''name'', JString ''Ann''), (''admin'', JBool True)]) [])
               world0) = []"
  by (simp add: CreateUserRequest_def plan_defs exec_defs handler_defs decode_defs)

subsection \<open>The response writer\<close>

lemma StatusResponse_differs: "StatusResponse T \<noteq> T"
proof
  assume "StatusResponse T = T"
  then have "size (StatusResponse T) = size T" by simp
  then show False by (simp add: StatusResponse_def)
qed

lemma writeResponse_responder:
  assumes "any Resp response = Some (dyn, v)" and "methods dyn = Some WriteResponse"
  shows "writeResponse methods Resp w response = WriteResponse v w"
  using assms by (simp add: writeResponse_def)

lemma writeResponse_concrete_type:
  assumes "Kind Resp \<noteq> KInterface" and "methods Resp = None"
  shows "writeResponse methods Resp w response = writeDefault Resp w response"
  using assms StatusResponse_differs[of Resp]
  by (auto simp: writeResponse_def any_def)

lemma writeResponse_status_wrapper_in_interface:
  assumes "Kind Resp = KInterface"
    and "response = VIface (Some (StatusResponse Resp, VStruct [VInt code, body]))"
    and "methods (StatusResponse Resp) = None" and "statusCode w = None"
  shows "statusCode (writeResponse methods Resp w response) = Some code
       \<and> written (writeResponse methods Resp w response) = written w @ [Encoded Resp body]"
  using assms
  by (simp add: writeResponse_def any_def StatusResponse_Code_def StatusResponse_Body_def
      Write_def WriteHeader_def Header_Set_def)

text \<open>
  Claim C1. The writer checks, in this order, the self-serializing capability, the
  status wrapper and the plain value. The first and the last are as claimed
  (\<open>writeResponse_responder\<close>, \<open>writeResponse_concrete_type\<close>). The wrapper is
  recognised only behind an interface-typed \<open>Resp\<close>
  (\<open>writeResponse_status_wrapper_in_interface\<close>): the assertion is to
  \<^verbatim>\<open>StatusResponse[Resp]\<close> with \<open>Resp\<close> the handler's own result type, so for a handler
  that returns \<^verbatim>\<open>StatusResponse[User]\<close> it asks for
  \<^verbatim>\<open>StatusResponse[StatusResponse[User]]\<close> and fails. Such a handler returning code
  201 gets status 200 and the whole wrapper, code included, as the JSON body.
\<close>

theorem C1_status_wrapper_is_written_whole:
  "statusCode (writeResponse (responderOf env0) (StatusResponse User) (writer world0)
                 (VStruct [VInt 201, ann])) = Some 200
   \<and> written (writeResponse (responderOf env0) (StatusResponse User) (writer world0)
                 (VStruct [VInt 201, ann]))
       = [Encoded (StatusResponse User) (VStruct [VInt 201, ann])]"
  by (simp add: handler_defs env0_def StatusResponse_def User_def structOf_def intType_def)

subsection \<open>The schema generator\<close>

lemma genField_path_required:
  assumes "\<forall>p \<in> set (op_Parameters (operation st)). p_In p = ''path'' \<longrightarrow> p_Required p"
  shows "\<forall>p \<in> set (op_Parameters (operation (genField sf st field))).
           p_In p = ''path'' \<longrightarrow> p_Required p"
  using assms by (auto simp: genField_def Let_def addParameter_def)

lemma foldl_genField_path_required:
  assumes "\<forall>p \<in> set (op_Parameters (operation st)). p_In p = ''path'' \<longrightarrow> p_Required p"
  shows "\<forall>p \<in> set (op_Parameters (operation (foldl (genField sf) st fs))).
           p_In p = ''path'' \<longrightarrow> p_Required p"
  using assms
proof (induction fs arbitrary: st)
  case Nil
  then show ?case by simp
next
  case (Cons f fs)
  from Cons.IH[OF genField_path_required[OF Cons.prems]] show ?case by simp
qed

lemma path_parameters_required:
  assumes "generateOperation sf endpoint = Ok op"
  shows "\<forall>p \<in> set (op_Parameters op). p_In p = ''path'' \<longrightarrow> p_Required p"
proof -
  from assms obtain respType reqType where
    op: "op = finalOperation (foldl (genField sf) (initialState sf endpoint respType) (Fields reqType))"
    by (auto simp: generateOperation_def split: option.splits if_splits)
  have fin: "\<And>st. op_Parameters (finalOperation st) = op_Parameters (operation st)"
    by (simp add: finalOperation_def)
  have "\<forall>p \<in> set (op_Parameters (operation (initialState sf endpoint respType))).
          p_In p = ''path'' \<longrightarrow> p_Required p"
    by (simp add: initialState_def)
  from foldl_genField_path_required[OF this, of sf "Fields reqType"] show ?thesis
    by (simp add: op fin)
qed

text \<open>
  Claim C3. The parameters of the generated operation correspond one-to-one to the
  route, header and query bindings that the walker finds in the groups, and a path
  parameter is always required. Every path parameter that the generator emits is
  required (\<open>path_parameters_required\<close>). But the generator does not look into the
  groups: it reads the tags \<^verbatim>\<open>header\<close>, \<^verbatim>\<open>route\<close> and \<^verbatim>\<open>query\<close> of the top-level
  fields. For \<^verbatim>\<open>GetUserRequest\<close> of the example application the walker finds three
  bindings and the generated operation has no parameter.
\<close>

theorem C3_generator_ignores_the_groups:
  "(\<exists>parser. buildRequestParser (scanFloat env0) GetUserRequest = Ok parser
      \<and> map (\<lambda>fp. (sourceType fp, sourceName fp)) (fieldParsers parser)
          = [(''route'', ''id''), (''header'', ''X-API-Key''), (''query'', ''include_details'')])
   \<and> (\<exists>op. generateOperation (scanFloat env0) getUserSpec = Ok op \<and> op_Parameters op = [])"
  by (simp add: GetUserRequest_def plan_defs generateOperation_def getUserSpec_def
      initialState_def finalOperation_def genField_def Let_def User_def)

text \<open>
  Conversely, for the README's shape with tagged top-level fields the generator emits
  the parameters, the path parameter required without a \<^verbatim>\<open>validate\<close> tag, and the
  walker finds no binding.
\<close>

lemma generator_reads_top_level_tags:
  "(\<exists>parser. buildRequestParser (scanFloat env0) FlatGetUserRequest = Ok parser
      \<and> fieldParsers parser = [])
   \<and> (\<exists>op. generateOperation (scanFloat env0)
               (getUserSpec\<lparr> RequestType := Some FlatGetUserRequest \<rparr>) = Ok op
         \<and> map (\<lambda>p. (p_In p, p_Name p, p_Required p)) (op_Parameters op)
             = [(''path'', ''id'', True), (''header'', ''X-API-Key'', True)])"
  by (simp add: FlatGetUserRequest_def plan_defs generateOperation_def getUserSpec_def
      initialState_def finalOperation_def genField_def Let_def User_def addParameter_def)

end
